theory Spec2Isabelle
  imports Complex_Main
begin

section \<open>JavaScript strings, objects and numbers\<close>

text \<open>
  Strings are lists of 8-bit characters, so the development covers the strings whose code
  units are below 256. Plain objects used as dictionaries are association lists in
  insertion order (the order \<open>Object.keys\<close>, \<open>Object.values\<close> and \<open>Object.entries\<close>
  enumerate string keys in); a key that is a canonical array index or the name of a member
  of \<open>Object.prototype\<close> is outside the model. Numbers are exact reals: rounding of
  IEEE doubles is not modelled.
\<close>

type_synonym 'a obj = "(string \<times> 'a) list"

definition obj_get :: "'a obj \<Rightarrow> string \<Rightarrow> 'a option" where
  "obj_get m k = map_of m k"

fun obj_set :: "'a obj \<Rightarrow> string \<Rightarrow> 'a \<Rightarrow> 'a obj" where
  "obj_set [] k v = [(k, v)]"
| "obj_set ((k', v') # m) k v =
     (if k' = k then (k, v) # m else (k', v') # obj_set m k v)"

fun join :: "string \<Rightarrow> string list \<Rightarrow> string" where
  "join sep [] = []"
| "join sep [x] = x"
| "join sep (x # y # ys) = x @ sep @ join sep (y # ys)"

text \<open>\<open>s.split(d)\<close> for a separator of one character.\<close>

fun splitOn :: "char \<Rightarrow> string \<Rightarrow> string list" where
  "splitOn d [] = [[]]"
| "splitOn d (c # cs) =
     (if c = d then [] # splitOn d cs
      else (case splitOn d cs of [] \<Rightarrow> [[c]] | w # ws \<Rightarrow> (c # w) # ws))"

fun startsWith :: "string \<Rightarrow> string \<Rightarrow> bool" where
  "startsWith s [] = True"
| "startsWith [] (p # ps) = False"
| "startsWith (c # cs) (p # ps) = (c = p \<and> startsWith cs ps)"

fun str_includes :: "string \<Rightarrow> string \<Rightarrow> bool" where
  "str_includes [] sub = (sub = [])"
| "str_includes (c # cs) sub = (startsWith (c # cs) sub \<or> str_includes cs sub)"

text \<open>
  \<open>toLowerCase\<close> on one character: the letters \<open>A\<close> to \<open>Z\<close>, and the capital letters of
  the Latin-1 block (192 to 222 but the multiplication sign 215), which lie 32 below their
  small letters.
\<close>

definition lowerChar :: "char \<Rightarrow> char" where
  "lowerChar c =
     (case map_of (zip ''ABCDEFGHIJKLMNOPQRSTUVWXYZ'' ''abcdefghijklmnopqrstuvwxyz'') c of
        Some l \<Rightarrow> l
      | None \<Rightarrow>
          (let n = of_char c :: nat
           in if 192 \<le> n \<and> n \<le> 222 \<and> n \<noteq> 215 then char_of (n + 32) else c))"

definition toLowerCase :: "string \<Rightarrow> string" where
  "toLowerCase s = map lowerChar s"

fun findIndex :: "('a \<Rightarrow> bool) \<Rightarrow> 'a list \<Rightarrow> nat option" where
  "findIndex P [] = None"
| "findIndex P (x # xs) = (if P x then Some 0 else map_option Suc (findIndex P xs))"

text \<open>\<open>xs.slice(-n)\<close>: the last \<open>n\<close> elements, the whole array when it is shorter.\<close>

definition slice_last :: "nat \<Rightarrow> 'a list \<Rightarrow> 'a list" where
  "slice_last n xs = drop (length xs - n) xs"

text \<open>\<open>xs.splice(0, k)\<close> as far as the array it leaves behind goes.\<close>

definition splice0 :: "nat \<Rightarrow> 'a list \<Rightarrow> 'a list" where
  "splice0 k xs = drop k xs"

section \<open>The learning engine (ai-learning.js)\<close>

text \<open>
  The environment of a call: the clock, the page address and whether
  \<open>localStorage.setItem\<close> succeeds for a key (it throws when the quota is exceeded).
  \<open>new URL(url).hostname\<close> belongs to the platform; the functions that need it take it
  as the parameter \<open>urlHostname\<close>, with \<open>None\<close> for a URL the constructor rejects.
\<close>

record env =
  now :: nat
  href :: string
  canWrite :: "string \<Rightarrow> bool"

record elementData =
  ed_tag :: string
  ed_classes :: "string list"

text \<open>
  An entry of the feedback database \<open>darkmode_feedback\<close>, with the fields the engine
  reads or writes.
\<close>

record feedback =
  fb_tag :: string
  fb_classes :: "string list"
  fb_description :: "string option"
  fb_url :: string
  fb_timestamp :: nat
  fb_fixed :: bool
  fb_appliedCSS :: "string option"
  fb_userRating :: "string option"
  fb_lastUpdated :: "nat option"

record problemBucket =
  pb_count :: nat
  pb_examples :: "feedback list"

record fixBucket =
  fx_count :: nat
  fx_cssFixes :: "string list"

record siteBucket =
  st_issues :: "feedback list"
  st_fixes :: "string list"

record patterns =
  commonProblems :: "problemBucket obj"
  successfulFixes :: "fixBucket obj"
  websitePatterns :: "siteBucket obj"
  confidence :: "real obj"

record successData =
  sd_elementData :: elementData
  sd_appliedCSS :: string
  sd_userRating :: string
  sd_timestamp :: nat
  sd_domain :: string
  sd_effectivenessScore :: real

record storage =
  darkmode_feedback :: "feedback list"
  darkmode_patterns :: "patterns option"
  darkmode_success :: "successData list"

definition learningThreshold :: real where
  "learningThreshold = 0.7"

definition categorizeProlem :: "feedback \<Rightarrow> string" where
  "categorizeProlem f =
     (let description = toLowerCase (case fb_description f of None \<Rightarrow> [] | Some d \<Rightarrow> d)
      in if str_includes description ''transparent'' \<or> str_includes description ''invisible''
           then ''transparent_background''
         else if str_includes description ''contrast'' \<or> str_includes description ''hard to read''
           then ''poor_contrast''
         else if str_includes description ''menu'' \<or> str_includes description ''dropdown''
           then ''menu_issues''
         else if str_includes description ''text'' \<or> str_includes description ''font''
           then ''text_visibility''
         else ''general_dark_mode'')"

definition extractDomain :: "(string \<Rightarrow> string option) \<Rightarrow> string \<Rightarrow> string" where
  "extractDomain urlHostname url =
     (case urlHostname url of Some h \<Rightarrow> h | None \<Rightarrow> ''unknown'')"

definition elementKey :: "string \<Rightarrow> string list \<Rightarrow> string" where
  "elementKey t cs = t @ ''.'' @ join ''.'' cs"

definition truthy :: "string option \<Rightarrow> bool" where
  "truthy v = (case v of None \<Rightarrow> False | Some s \<Rightarrow> s \<noteq> [])"

text \<open>One round of the \<open>forEach\<close> of \<open>extractPatterns\<close>.\<close>

definition extractStep :: "(string \<Rightarrow> string option) \<Rightarrow> patterns \<Rightarrow> feedback \<Rightarrow> patterns" where
  "extractStep urlHostname p f =
     (let problemKey = categorizeProlem f;
          pb = (case obj_get (commonProblems p) problemKey of
                  None \<Rightarrow> \<lparr>pb_count = 0, pb_examples = []\<rparr> | Some b \<Rightarrow> b);
          p1 = p\<lparr>commonProblems := obj_set (commonProblems p) problemKey
                  \<lparr>pb_count = pb_count pb + 1, pb_examples = pb_examples pb @ [f]\<rparr>\<rparr>;
          p2 = (if fb_fixed f then
                  (let k = elementKey (fb_tag f) (fb_classes f);
                       fx = (case obj_get (successfulFixes p1) k of
                               None \<Rightarrow> \<lparr>fx_count = 0, fx_cssFixes = []\<rparr> | Some b \<Rightarrow> b)
                   in p1\<lparr>successfulFixes := obj_set (successfulFixes p1) k
                          \<lparr>fx_count = fx_count fx + 1,
                           fx_cssFixes = (case fb_appliedCSS f of
                                            Some css \<Rightarrow> if css \<noteq> [] then fx_cssFixes fx @ [css]
                                                        else fx_cssFixes fx
                                          | None \<Rightarrow> fx_cssFixes fx)\<rparr>\<rparr>)
                else p1);
          domain = extractDomain urlHostname (fb_url f);
          sb = (case obj_get (websitePatterns p2) domain of
                  None \<Rightarrow> \<lparr>st_issues = [], st_fixes = []\<rparr> | Some b \<Rightarrow> b)
      in p2\<lparr>websitePatterns := obj_set (websitePatterns p2) domain
              (sb\<lparr>st_issues := st_issues sb @ [f]\<rparr>)\<rparr>)"

definition emptyPatterns :: patterns where
  "emptyPatterns =
     \<lparr>commonProblems = [], successfulFixes = [], websitePatterns = [], confidence = []\<rparr>"

definition extractPatterns :: "(string \<Rightarrow> string option) \<Rightarrow> feedback list \<Rightarrow> patterns" where
  "extractPatterns urlHostname feedbackData =
     (let p = foldl (extractStep urlHostname) emptyPatterns feedbackData
      in p\<lparr>confidence :=
             map (\<lambda>(k, fix). (k, min (real (fx_count fix) / 10) 1.0)) (successfulFixes p)\<rparr>)"

definition calculateEffectivenessScore :: "string \<Rightarrow> real" where
  "calculateEffectivenessScore userRating =
     (if userRating = ''up'' then 1.0
      else if userRating = ''down'' then 0.0
      else if userRating = ''neutral'' then 0.5
      else 0.3)"

definition updateFeedbackWithSuccess ::
    "env \<Rightarrow> elementData \<Rightarrow> string \<Rightarrow> string \<Rightarrow> storage \<Rightarrow> storage" where
  "updateFeedbackWithSuccess e elementData appliedCSS userRating st =
     (let fb = darkmode_feedback st
      in case findIndex (\<lambda>item. fb_tag item = ed_tag elementData \<and>
                                  fb_classes item = ed_classes elementData) fb of
           None \<Rightarrow> st
         | Some i \<Rightarrow>
             if canWrite e ''darkmode_feedback''
             then st\<lparr>darkmode_feedback :=
                       fb[i := (fb ! i)\<lparr>fb_fixed := (userRating = ''up''),
                                        fb_appliedCSS := Some appliedCSS,
                                        fb_userRating := Some userRating,
                                        fb_lastUpdated := Some (now e)\<rparr>]\<rparr>
             else st)"

text \<open>
  \<open>trackFixSuccess\<close> of the engine: the reply (\<open>None\<close> for the \<open>null\<close> of the
  \<open>catch\<close> branch) and the storage it leaves.
\<close>

definition trackFixSuccess ::
    "(string \<Rightarrow> string option) \<Rightarrow> env \<Rightarrow> elementData \<Rightarrow> string \<Rightarrow> string \<Rightarrow> storage
      \<Rightarrow> successData option \<times> storage" where
  "trackFixSuccess urlHostname e elementData appliedCSS userRating st =
     (let successData =
            \<lparr>sd_elementData = elementData, sd_appliedCSS = appliedCSS,
             sd_userRating = userRating, sd_timestamp = now e,
             sd_domain = extractDomain urlHostname (href e),
             sd_effectivenessScore = calculateEffectivenessScore userRating\<rparr>;
          pushed = darkmode_success st @ [successData];
          successMetrics = (if length pushed > 500 then slice_last 500 pushed else pushed)
      in if canWrite e ''darkmode_success''
         then (Some successData,
               updateFeedbackWithSuccess e elementData appliedCSS userRating
                 (st\<lparr>darkmode_success := successMetrics\<rparr>))
         else (None, st))"

definition isSpace :: "char \<Rightarrow> bool" where
  "isSpace c = (of_char c \<in> {9, 10, 11, 12, 13, 32, 160 :: nat})"

definition trim :: "string \<Rightarrow> string" where
  "trim s = rev (dropWhile isSpace (rev (dropWhile isSpace s)))"

function showNat :: "nat \<Rightarrow> string" where
  "showNat n =
     (if n < 10 then [char_of (48 + n)] else showNat (n div 10) @ [char_of (48 + n mod 10)])"
  by pat_completeness auto
termination
  by (relation "measure id") auto

declare showNat.simps [simp del]

text \<open>
  \<open>entries.sort((a, b) => b[1] - a[1])\<close>: by count, largest first; the sort is stable, so
  entries of equal count stay in insertion order.
\<close>

definition sortByCountDesc :: "nat obj \<Rightarrow> nat obj" where
  "sortByCountDesc entries = sort_key (\<lambda>(k, c). - int c) entries"

definition countInto :: "nat obj \<Rightarrow> string \<Rightarrow> nat obj" where
  "countInto freq k = obj_set freq k ((case obj_get freq k of None \<Rightarrow> 0 | Some c \<Rightarrow> c) + 1)"

definition extractCSSRules :: "string \<Rightarrow> string list" where
  "extractCSSRules css =
     filter (\<lambda>rule. length rule > 1) (map (\<lambda>rule. trim rule @ ''}'') (splitOn (CHR ''}'') css))"

definition findMostSuccessfulCSS :: "string list \<Rightarrow> string option" where
  "findMostSuccessfulCSS cssFixes =
     (if cssFixes = [] then None
      else (let ruleFrequency = foldl (\<lambda>freq css. foldl countInto freq (extractCSSRules css))
                                  [] cssFixes;
                popularRules = map fst (sortByCountDesc
                                 (filter (\<lambda>(rule, count). count \<ge> 2) ruleFrequency))
            in Some (join [CHR 0x0A] popularRules)))"

definition findCommonProblemsInDomain :: "feedback list \<Rightarrow> string list" where
  "findCommonProblemsInDomain issues =
     (let problemCounts = foldl (\<lambda>counts issue. countInto counts (categorizeProlem issue))
                            [] issues
      in map fst (sortByCountDesc (filter (\<lambda>(problem, count). count \<ge> 2) problemCounts)))"

text \<open>The text of a template literal, given the lines that follow its opening backquote.\<close>

definition template :: "string list \<Rightarrow> string" where
  "template ls = concat (map (\<lambda>l. CHR 0x0A # l) ls)"

definition cssFor :: "string \<Rightarrow> string list" where
  "cssFor problem =
     (if problem = ''transparent_background'' then
        [template
          [''                        .menu, .dropdown, [class*='' @ [CHR 0x22] @ ''menu''
             @ [CHR 0x22] @ ''], [class*='' @ [CHR 0x22] @ ''dropdown'' @ [CHR 0x22] @ ''] {'',
           ''                            background-color: #222 !important;'',
           ''                            border: 1px solid #444 !important;'',
           ''                        }'',
           ''                    '']]
      else if problem = ''poor_contrast'' then
        [template
          [''                        * {'',
           ''                            color: #e0e0e0 !important;'',
           ''                        }'',
           ''                        a, .link {'',
           ''                            color: #58a6ff !important;'',
           ''                        }'',
           ''                    '']]
      else if problem = ''menu_issues'' then
        [template
          [''                        nav, .navigation, .nav-menu {'',
           ''                            background-color: #1a1a1a !important;'',
           ''                            color: #ffffff !important;'',
           ''                        }'',
           ''                    '']]
      else [])"

definition generateDomainSpecificCSS :: "string list \<Rightarrow> string" where
  "generateDomainSpecificCSS problems =
     join [CHR 0x0A] (concat (map cssFor problems))"

record domainPattern =
  dp_confidence :: real
  dp_recommendedCSS :: "string option"

definition analyzeDomainPattern :: "siteBucket \<Rightarrow> domainPattern" where
  "analyzeDomainPattern domainData =
     (let totalIssues = length (st_issues domainData);
          fixedIssues = length (filter fb_fixed (st_issues domainData))
      in if totalIssues < 3 then \<lparr>dp_confidence = 0, dp_recommendedCSS = None\<rparr>
         else \<lparr>dp_confidence = real fixedIssues / real totalIssues,
               dp_recommendedCSS =
                 Some (generateDomainSpecificCSS
                         (findCommonProblemsInDomain (st_issues domainData)))\<rparr>)"

text \<open>
  \<open>analyzeFeedbackPatterns\<close>: the patterns derived from the stored feedback, written back
  under \<open>darkmode_patterns\<close>; \<open>None\<close> stands for the \<open>{}\<close> of the \<open>catch\<close> branch.
\<close>

definition analyzeFeedbackPatterns ::
    "(string \<Rightarrow> string option) \<Rightarrow> env \<Rightarrow> storage \<Rightarrow> patterns option \<times> storage" where
  "analyzeFeedbackPatterns urlHostname e st =
     (let p = extractPatterns urlHostname (darkmode_feedback st)
      in if canWrite e ''darkmode_patterns'' then (Some p, st\<lparr>darkmode_patterns := Some p\<rparr>)
         else (None, st))"

record prediction =
  pr_css :: "string option"
  pr_confidence :: real
  pr_source :: string
  pr_basedOn :: string

datatype jsError = TypeError

text \<open>
  \<open>generatePredictiveCSS\<close>: \<open>Inr None\<close> is the \<open>null\<close> that sends the caller to the
  remote generator; \<open>Inl TypeError\<close> is the rejection when \<open>analyzeFeedbackPatterns\<close>
  gave \<open>{}\<close> and \<open>patterns.confidence\<close> is read.
\<close>

definition generatePredictiveCSS ::
    "(string \<Rightarrow> string option) \<Rightarrow> env \<Rightarrow> elementData \<Rightarrow> string \<Rightarrow> storage
      \<Rightarrow> (jsError + prediction option) \<times> storage" where
  "generatePredictiveCSS urlHostname e elementData url st =
     (case analyzeFeedbackPatterns urlHostname e st of
        (None, st') \<Rightarrow> (Inl TypeError, st')
      | (Some p, st') \<Rightarrow>
          (let k = elementKey (ed_tag elementData) (ed_classes elementData);
               domain = extractDomain urlHostname url
           in if (case obj_get (confidence p) k of
                    None \<Rightarrow> False | Some c \<Rightarrow> c \<ge> learningThreshold)
              then (case obj_get (successfulFixes p) k of
                      None \<Rightarrow> (Inl TypeError, st')
                    | Some fixes \<Rightarrow>
                        (Inr (Some \<lparr>pr_css = findMostSuccessfulCSS (fx_cssFixes fixes),
                                    pr_confidence = the (obj_get (confidence p) k),
                                    pr_source = ''learned_pattern'',
                                    pr_basedOn = showNat (fx_count fixes) @ '' previous fixes''\<rparr>),
                         st'))
              else (case obj_get (websitePatterns p) domain of
                      None \<Rightarrow> (Inr None, st')
                    | Some bucket \<Rightarrow>
                        (let dp = analyzeDomainPattern bucket
                         in if dp_confidence dp > 0.5
                            then (Inr (Some \<lparr>pr_css = dp_recommendedCSS dp,
                                             pr_confidence = dp_confidence dp,
                                             pr_source = ''domain_pattern'',
                                             pr_basedOn = ''Similar issues on '' @ domain\<rparr>),
                                  st')
                            else (Inr None, st')))))"


section \<open>The popup's fix tracking (popup.js)\<close>

record popupElementData =
  pe_tag :: string
  pe_elementType :: string
  pe_detectedIssues :: "string list"
  pe_url :: string
  pe_automated :: bool
  pe_refinement :: bool

record fixRecord =
  fr_element :: string
  fr_elementType :: string
  fr_issues :: "string list"
  fr_css :: string
  fr_feedback :: string
  fr_timestamp :: nat
  fr_url :: string
  fr_automaticAnalysis :: bool
  fr_userRefinement :: bool
  fr_cssRulesCount :: nat
  fr_successScore :: real

datatype storageError = QuotaExceeded

text \<open>
  The popup's \<open>trackFixSuccess\<close> on the list stored under \<open>darkmode_fix_tracking\<close>.
  Nothing catches a failing write there: the list stays as it was and the call throws.
\<close>

definition popup_trackFixSuccess ::
    "env \<Rightarrow> popupElementData \<Rightarrow> string \<Rightarrow> string \<Rightarrow> fixRecord list
      \<Rightarrow> storageError + fixRecord list" where
  "popup_trackFixSuccess e elementData cssPatch feedback stored =
     (let fixRecord =
            \<lparr>fr_element = pe_tag elementData, fr_elementType = pe_elementType elementData,
             fr_issues = pe_detectedIssues elementData, fr_css = cssPatch,
             fr_feedback = feedback, fr_timestamp = now e, fr_url = pe_url elementData,
             fr_automaticAnalysis = pe_automated elementData,
             fr_userRefinement = pe_refinement elementData,
             fr_cssRulesCount =
               length (filter (\<lambda>line. str_includes line '':'') (splitOn (CHR 0x0A) cssPatch)),
             fr_successScore = (if feedback = ''positive'' then 1
                                else if feedback = ''partial'' then 0.5 else 0)\<rparr>;
          pushed = stored @ [fixRecord];
          existingRecords = (if length pushed > 100
                             then splice0 (length pushed - 100) pushed else pushed)
      in if canWrite e ''darkmode_fix_tracking'' then Inr existingRecords
         else Inl QuotaExceeded)"

section \<open>Parsing numbers and colours (content.js)\<close>

text \<open>
  A JavaScript number as far as the classifier meets one: a real, an infinity or \<open>NaN\<close>.
\<close>

datatype jsnum = Num real | PosInf | NegInf | NaN

definition js_less :: "jsnum \<Rightarrow> real \<Rightarrow> bool" where
  "js_less x y = (case x of Num v \<Rightarrow> v < y | NegInf \<Rightarrow> True | _ \<Rightarrow> False)"

definition js_greater :: "jsnum \<Rightarrow> real \<Rightarrow> bool" where
  "js_greater x y = (case x of Num v \<Rightarrow> v > y | PosInf \<Rightarrow> True | _ \<Rightarrow> False)"

definition isDigit :: "char \<Rightarrow> bool" where
  "isDigit c = (48 \<le> (of_char c :: nat) \<and> (of_char c :: nat) \<le> 57)"

definition isHexDigit :: "char \<Rightarrow> bool" where
  "isHexDigit c =
     (isDigit c \<or> (97 \<le> (of_char c :: nat) \<and> (of_char c :: nat) \<le> 102)
        \<or> (65 \<le> (of_char c :: nat) \<and> (of_char c :: nat) \<le> 70))"

definition hexDigitVal :: "char \<Rightarrow> nat" where
  "hexDigitVal c =
     (let n = of_char c :: nat
      in if n \<le> 57 then n - 48 else if n \<le> 70 then n - 55 else n - 87)"

text \<open>The value of a string of decimal digits, and of a string of hexadecimal digits.\<close>

definition digitsVal :: "string \<Rightarrow> nat" where
  "digitsVal ds = foldl (\<lambda>acc c. 10 * acc + ((of_char c :: nat) - 48)) 0 ds"

definition hexVal :: "string \<Rightarrow> nat" where
  "hexVal ds = foldl (\<lambda>acc c. 16 * acc + hexDigitVal c) 0 ds"

text \<open>An optional sign at the head of a string, and the rest.\<close>

definition takeSign :: "string \<Rightarrow> real \<times> string" where
  "takeSign s =
     (case s of
        [] \<Rightarrow> (1, s)
      | c # cs \<Rightarrow> if c = CHR ''+'' then (1, cs) else if c = CHR ''-'' then (- 1, cs) else (1, s))"

text \<open>
  The exponent part \<open>e\<close>, optional sign, digits at the head of a string; 0 when there is
  none.
\<close>

definition takeExponent :: "string \<Rightarrow> int" where
  "takeExponent s =
     (case s of
        [] \<Rightarrow> 0
      | c # cs \<Rightarrow>
          if c = CHR ''e'' \<or> c = CHR ''E'' then
            (case takeSign cs of
               (sg, ds) \<Rightarrow>
                 if takeWhile isDigit ds = [] then 0
                 else (if sg < 0 then - int (digitsVal (takeWhile isDigit ds))
                       else int (digitsVal (takeWhile isDigit ds))))
          else 0)"

text \<open>
  \<open>parseFloat\<close>: white space is skipped, then the longest prefix that is a decimal
  literal is read; \<open>NaN\<close> when there is none.
\<close>

definition parseFloat :: "string \<Rightarrow> jsnum" where
  "parseFloat s =
     (case takeSign (dropWhile isSpace s) of
        (sg, u) \<Rightarrow>
          if startsWith u ''Infinity'' then (if sg < 0 then NegInf else PosInf)
          else
            (let ip = takeWhile isDigit u;
                 rest = dropWhile isDigit u;
                 fp = (case rest of
                         [] \<Rightarrow> []
                       | c # cs \<Rightarrow> if c = CHR ''.'' then takeWhile isDigit cs else []);
                 after = (case rest of
                            [] \<Rightarrow> []
                          | c # cs \<Rightarrow> if c = CHR ''.'' then dropWhile isDigit cs else rest);
                 mantissa = real (digitsVal ip) + real (digitsVal fp) / 10 ^ length fp;
                 ex = takeExponent after
             in if ip = [] \<and> fp = [] then NaN
                else Num (sg * (if ex < 0 then mantissa / 10 ^ nat (- ex)
                                else mantissa * 10 ^ nat ex))))"

text \<open>
  \<open>parseInt(s, 16)\<close>: white space, a sign and a prefix \<open>0x\<close> are skipped, then the
  hexadecimal digits are read; \<open>None\<close> stands for \<open>NaN\<close>.
\<close>

definition parseIntHex :: "string \<Rightarrow> real option" where
  "parseIntHex s =
     (case takeSign (dropWhile isSpace s) of
        (sg, u) \<Rightarrow>
          (let v = (if startsWith u ''0x'' \<or> startsWith u ''0X'' then drop 2 u else u);
               ds = takeWhile isHexDigit v
           in if ds = [] then None else Some (sg * real (hexVal ds))))"

record color =
  c_r :: nat
  c_g :: nat
  c_b :: nat
  c_alpha :: jsnum

text \<open>
  A match of \<open>/rgba?\((\d+),\s*(\d+),\s*(\d+)(?:,\s*([\d.]+))?\)/\<close> that starts at the
  head of the string: the three groups of digits and the fourth group, when it took part.
  Every quantifier of the pattern is followed by a character outside its own class, so
  the greedy match is the only one.
\<close>

definition afterDigits :: "string \<Rightarrow> (string \<times> string) option" where
  "afterDigits s =
     (if takeWhile isDigit s = [] then None
      else (case dropWhile isDigit s of
              [] \<Rightarrow> None
            | c # cs \<Rightarrow> if c = CHR '','' then Some (takeWhile isDigit s, dropWhile isSpace cs)
                        else None))"

definition isAlphaChar :: "char \<Rightarrow> bool" where
  "isAlphaChar c = (isDigit c \<or> c = CHR ''.'')"

definition matchRgbaAt :: "string \<Rightarrow> (string \<times> string \<times> string \<times> string option) option" where
  "matchRgbaAt s =
     (if startsWith s ''rgb('' \<or> startsWith s ''rgba('' then
        (case afterDigits (if startsWith s ''rgb('' then drop 4 s else drop 5 s) of
           None \<Rightarrow> None
         | Some (d1, s1) \<Rightarrow>
             (case afterDigits s1 of
                None \<Rightarrow> None
              | Some (d2, s2) \<Rightarrow>
                  if takeWhile isDigit s2 = [] then None
                  else (case dropWhile isDigit s2 of
                          [] \<Rightarrow> None
                        | c # cs \<Rightarrow>
                            if c = CHR '')'' then Some (d1, d2, takeWhile isDigit s2, None)
                            else if c = CHR '','' then
                              (let t = dropWhile isSpace cs
                               in if takeWhile isAlphaChar t \<noteq> []
                                     \<and> startsWith (dropWhile isAlphaChar t) '')''
                                  then Some (d1, d2, takeWhile isDigit s2,
                                             Some (takeWhile isAlphaChar t))
                                  else None)
                            else None)))
      else None)"

text \<open>\<open>colorStr.match\<close> of that pattern: the leftmost match.\<close>

fun rgbaMatch :: "string \<Rightarrow> (string \<times> string \<times> string \<times> string option) option" where
  "rgbaMatch [] = None"
| "rgbaMatch (c # cs) =
     (case matchRgbaAt (c # cs) of Some m \<Rightarrow> Some m | None \<Rightarrow> rgbaMatch cs)"

text \<open>\<open>colorStr.match(/^#([a-f\d]{3}|[a-f\d]{6})$/i)\<close>: the group.\<close>

definition hexMatch :: "string \<Rightarrow> string option" where
  "hexMatch s =
     (case s of
        [] \<Rightarrow> None
      | c # h \<Rightarrow> if c = CHR ''#'' \<and> (length h = 3 \<or> length h = 6) \<and> list_all isHexDigit h
                 then Some h else None)"

definition parseColor :: "string option \<Rightarrow> color" where
  "parseColor colorStr =
     (case colorStr of
        None \<Rightarrow> \<lparr>c_r = 0, c_g = 0, c_b = 0, c_alpha = Num 0\<rparr>
      | Some s \<Rightarrow>
          if s = [] \<or> s = ''transparent'' then \<lparr>c_r = 0, c_g = 0, c_b = 0, c_alpha = Num 0\<rparr>
          else (case rgbaMatch s of
                  Some (d1, d2, d3, a) \<Rightarrow>
                    \<lparr>c_r = digitsVal d1, c_g = digitsVal d2, c_b = digitsVal d3,
                     c_alpha = (case a of Some t \<Rightarrow> parseFloat t | None \<Rightarrow> Num 1)\<rparr>
                | None \<Rightarrow>
                    (case hexMatch s of
                       Some hex \<Rightarrow>
                         if length hex = 3 then
                           \<lparr>c_r = hexVal [hex ! 0, hex ! 0], c_g = hexVal [hex ! 1, hex ! 1],
                            c_b = hexVal [hex ! 2, hex ! 2], c_alpha = Num 1\<rparr>
                         else
                           \<lparr>c_r = hexVal (take 2 hex), c_g = hexVal (take 2 (drop 2 hex)),
                            c_b = hexVal (take 2 (drop 4 hex)), c_alpha = Num 1\<rparr>
                     | None \<Rightarrow> \<lparr>c_r = 0, c_g = 0, c_b = 0, c_alpha = Num 1\<rparr>)))"

section \<open>The classifier of a selected element (content.js)\<close>

definition isLightColor :: "color \<Rightarrow> bool" where
  "isLightColor c =
     (if c_alpha c = Num 0 then False
      else (real (c_r c) * 299 + real (c_g c) * 587 + real (c_b c) * 114) / 1000 > 128)"

definition isDarkColor :: "color \<Rightarrow> bool" where
  "isDarkColor c =
     (if c_alpha c = Num 0 then False
      else (real (c_r c) * 299 + real (c_g c) * 587 + real (c_b c) * 114) / 1000 < 128)"

text \<open>The linearisation of one sRGB channel, written three times in \<open>getLuminance\<close>.\<close>

definition linearize :: "real \<Rightarrow> real" where
  "linearize v = (if v \<le> 0.03928 then v / 12.92 else ((v + 0.055) / 1.055) powr 2.4)"

definition getLuminance :: "color \<Rightarrow> real" where
  "getLuminance c =
     0.2126 * linearize (real (c_r c) / 255) + 0.7152 * linearize (real (c_g c) / 255)
       + 0.0722 * linearize (real (c_b c) / 255)"

definition calculateContrast :: "color \<Rightarrow> color \<Rightarrow> real" where
  "calculateContrast color1 color2 =
     (let l1 = getLuminance color1; l2 = getLuminance color2;
          brightest = max l1 l2; darkest = min l1 l2
      in (brightest + 0.05) / (darkest + 0.05))"

text \<open>
  The properties of a computed style that the classifiers read; the property \<open>color\<close> is
  the field \<open>textColor\<close>.
\<close>

record computedStyle =
  backgroundColor :: string
  textColor :: string
  borderColor :: string
  borderStyle :: string
  opacity :: string
  visibility :: string
  position :: string
  zIndex :: string

definition detectDarkModeIssues :: "computedStyle \<Rightarrow> string list" where
  "detectDarkModeIssues cs =
     (let bgColor = parseColor (Some (backgroundColor cs));
          txColor = parseColor (Some (textColor cs));
          bdColor = parseColor (Some (borderColor cs))
      in (if isLightColor bgColor \<and> isDarkColor txColor
          then [''light_background_dark_text''] else [])
       @ (if c_alpha bgColor = Num 0 \<and> isDarkColor txColor
          then [''transparent_background_dark_text''] else [])
       @ (if c_r bgColor > 240 \<and> c_g bgColor > 240 \<and> c_b bgColor > 240
          then [''very_light_background''] else [])
       @ (if (c_r txColor \<noteq> 0 \<or> c_g txColor \<noteq> 0 \<or> c_b txColor \<noteq> 0)
             \<and> calculateContrast bgColor txColor < 3
          then [''low_contrast''] else [])
       @ (if opacity cs \<noteq> ''1'' \<and> js_less (parseFloat (opacity cs)) 0.5
          then [''low_opacity''] else [])
       @ (if isLightColor bdColor \<and> borderStyle cs \<noteq> ''none''
          then [''light_border''] else []))"

section \<open>The page analysis (content.js)\<close>

text \<open>\<open>color.match(/\d+/g)\<close>: the maximal runs of digits, from left to right.\<close>

fun digitRunsFrom :: "string \<Rightarrow> string \<Rightarrow> string list" where
  "digitRunsFrom cur [] = (if cur = [] then [] else [cur])"
| "digitRunsFrom cur (c # cs) =
     (if isDigit c then digitRunsFrom (cur @ [c]) cs
      else if cur = [] then digitRunsFrom [] cs
      else cur # digitRunsFrom [] cs)"

definition digitRuns :: "string \<Rightarrow> string list" where
  "digitRuns s = digitRunsFrom [] s"

text \<open>
  \<open>getColorLuminance\<close> on the text of a colour; \<open>None\<close> is the \<open>NaN\<close> that a \<open>#\<close>
  colour without six hexadecimal digits gives.
\<close>

definition getColorLuminance :: "string \<Rightarrow> real option" where
  "getColorLuminance color =
     (if color = [] \<or> color = ''transparent'' then Some 0
      else if startsWith color ''rgb'' then
        (case digitRuns color of
           d1 # d2 # d3 # others \<Rightarrow>
             Some (0.2126 * linearize (real (digitsVal d1) / 255)
                 + 0.7152 * linearize (real (digitsVal d2) / 255)
                 + 0.0722 * linearize (real (digitsVal d3) / 255))
         | _ \<Rightarrow> Some 0.5)
      else if startsWith color ''#'' then
        (let hex = drop 1 color
         in case (parseIntHex (take 2 hex), parseIntHex (take 2 (drop 2 hex)),
                  parseIntHex (take 2 (drop 4 hex))) of
              (Some r, Some g, Some b) \<Rightarrow>
                Some (0.2126 * linearize (r / 255) + 0.7152 * linearize (g / 255)
                    + 0.0722 * linearize (b / 255))
            | _ \<Rightarrow> None)
      else Some 0.5)"

definition haspoorContrast :: "string \<Rightarrow> string \<Rightarrow> bool" where
  "haspoorContrast bgColor txColor =
     (case (getColorLuminance bgColor, getColorLuminance txColor) of
        (Some bgLuminance, Some textLuminance) \<Rightarrow>
          (max bgLuminance textLuminance + 0.05) / (min bgLuminance textLuminance + 0.05) < 3
      | _ \<Rightarrow> False)"

text \<open>
  What the page analysis reads of an element: the tag name, the \<open>id\<close>, the text of the
  \<open>class\<close> and of the \<open>style\<close> attribute (empty when the element has none) and the
  computed style. A document is the list of its elements in document order.
\<close>

record pageElement =
  pg_tagName :: string
  pg_id :: string
  pg_className :: string
  pg_styleAttr :: string
  pg_style :: computedStyle

text \<open>
  \<open>element.classList\<close>: the tokens of the \<open>class\<close> attribute between ASCII white space
  (tab, line feed, form feed, carriage return, space), each once, in the order of its
  first occurrence.
\<close>

definition isAsciiSpace :: "char \<Rightarrow> bool" where
  "isAsciiSpace c = (of_char c \<in> {9, 10, 12, 13, 32 :: nat})"

fun tokensFrom :: "string \<Rightarrow> string \<Rightarrow> string list" where
  "tokensFrom cur [] = (if cur = [] then [] else [cur])"
| "tokensFrom cur (c # cs) =
     (if \<not> isAsciiSpace c then tokensFrom (cur @ [c]) cs
      else if cur = [] then tokensFrom [] cs
      else cur # tokensFrom [] cs)"

definition classList :: "pageElement \<Rightarrow> string list" where
  "classList element =
     foldl (\<lambda>seen t. if t \<in> set seen then seen else seen @ [t]) []
       (tokensFrom [] (pg_className element))"

record pageIssue =
  pi_selector :: string
  pi_issue :: string
  pi_tag :: string
  pi_classes :: "string list"
  pi_currentBg :: string
  pi_currentColor :: string

definition getElementSelector :: "pageElement \<Rightarrow> string" where
  "getElementSelector element =
     (if pg_id element \<noteq> [] then ''#'' @ pg_id element
      else if pg_className element \<noteq> [] \<and> take 3 (classList element) \<noteq> []
        then toLowerCase (pg_tagName element) @ ''.'' @ join ''.'' (take 3 (classList element))
      else toLowerCase (pg_tagName element))"

text \<open>
  The selectors of \<open>analyzePageForDarkMode\<close> are of three shapes: \<open>[style*="t"]\<close>, the
  \<open>style\<close> attribute contains \<open>t\<close>; \<open>.c\<close>, the class list has \<open>c\<close>; \<open>[class*="t"]\<close>, the
  \<open>class\<close> attribute contains \<open>t\<close>. The values are compared case-sensitively, as in a
  document that is not in quirks mode.
\<close>

datatype selector = StyleContains string | HasClass string | ClassContains string

definition problematicSelectors :: "selector list" where
  "problematicSelectors =
     [StyleContains ''background:transparent'',
      StyleContains ''background: transparent'',
      StyleContains ''background-color:transparent'',
      StyleContains ''background-color: transparent'',
      HasClass ''menu'', HasClass ''dropdown'', HasClass ''popup'', HasClass ''modal'',
      HasClass ''overlay'',
      ClassContains ''menu'', ClassContains ''dropdown'', ClassContains ''popup'',
      ClassContains ''modal'', ClassContains ''overlay'']"

fun matchesSelector :: "pageElement \<Rightarrow> selector \<Rightarrow> bool" where
  "matchesSelector element (StyleContains t) = str_includes (pg_styleAttr element) t"
| "matchesSelector element (HasClass c) = (c \<in> set (classList element))"
| "matchesSelector element (ClassContains t) = str_includes (pg_className element) t"

definition querySelectorAll :: "pageElement list \<Rightarrow> selector \<Rightarrow> pageElement list" where
  "querySelectorAll document sel = filter (\<lambda>element. matchesSelector element sel) document"

record analysis =
  hasTransparentMenus :: nat
  darkModeIssues :: "pageIssue list"
  totalElements :: nat
  problemElements :: nat
  an_timestamp :: nat

definition issueOf :: "pageElement \<Rightarrow> string \<Rightarrow> pageIssue" where
  "issueOf element name =
     \<lparr>pi_selector = getElementSelector element, pi_issue = name,
      pi_tag = toLowerCase (pg_tagName element), pi_classes = classList element,
      pi_currentBg = backgroundColor (pg_style element),
      pi_currentColor = textColor (pg_style element)\<rparr>"

text \<open>
  The body of the inner \<open>forEach\<close>: what the analysis does with one element that the
  current selector matched.
\<close>

definition examineElement :: "analysis \<Rightarrow> pageElement \<Rightarrow> analysis" where
  "examineElement a element =
     (let bgColor = backgroundColor (pg_style element);
          color = textColor (pg_style element);
          a1 = (if bgColor = ''transparent'' \<or> bgColor = ''rgba(0, 0, 0, 0)''
                   \<or> (str_includes bgColor ''rgba'' \<and> str_includes bgColor ''0)'')
                then a\<lparr>hasTransparentMenus := hasTransparentMenus a + 1,
                       darkModeIssues :=
                         darkModeIssues a @ [issueOf element ''transparent_background'']\<rparr>
                else a)
      in if haspoorContrast bgColor color
         then a1\<lparr>darkModeIssues := darkModeIssues a1 @ [issueOf element ''poor_contrast'']\<rparr>
         else a1)"

text \<open>
  The body of the outer \<open>forEach\<close>: the elements that one selector matches are examined
  in document order, and counted. An element that several selectors match is examined
  once for each of them.
\<close>

definition examineSelector :: "pageElement list \<Rightarrow> analysis \<Rightarrow> selector \<Rightarrow> analysis" where
  "examineSelector document a sel =
     (let elements = querySelectorAll document sel;
          a1 = foldl examineElement a elements
      in a1\<lparr>totalElements := totalElements a1 + length elements\<rparr>)"

definition analyzePageForDarkMode :: "env \<Rightarrow> pageElement list \<Rightarrow> analysis" where
  "analyzePageForDarkMode e document =
     (let a = foldl (examineSelector document)
                \<lparr>hasTransparentMenus = 0, darkModeIssues = [], totalElements = 0,
                 problemElements = 0, an_timestamp = now e\<rparr>
                problematicSelectors
      in a\<lparr>problemElements := length (darkModeIssues a)\<rparr>)"

section \<open>The page scanner of the menu-fixing content script\<close>

text \<open>
  The second content script (the one that adds the class \<open>universal-dark-mode\<close> to the
  root element and fixes transparent menus) scans every element with
  \<open>analyzeDarkModeIssues\<close>. What it reads of one element:
\<close>

record scannedElement =
  se_classes :: "string list"
  se_role :: "string option"
  se_ariaModal :: "string option"
  se_textContent :: string
  se_hasOffsetParent :: bool
  se_offsetWidth :: real
  se_offsetHeight :: real
  se_rectWidth :: real
  se_rectHeight :: real
  se_style :: computedStyle

definition isTransparent :: "string \<Rightarrow> bool" where
  "isTransparent bg = (bg = ''rgba(0, 0, 0, 0)'' \<or> bg = ''transparent'')"

definition isLikelyMenu :: "scannedElement \<Rightarrow> real \<Rightarrow> real \<Rightarrow> bool" where
  "isLikelyMenu el vw vh =
     ((position (se_style el) = ''fixed'' \<or> position (se_style el) = ''absolute'')
      \<and> js_greater (parseFloat (zIndex (se_style el))) 100
      \<and> isTransparent (backgroundColor (se_style el))
      \<and> se_hasOffsetParent el
      \<and> se_offsetHeight el > 40 \<and> se_offsetWidth el > 40
      \<and> se_rectWidth el < vw * 0.9 \<and> se_rectHeight el < vh * 0.9
      \<and> (se_role el = Some ''menu'' \<or> se_role el = Some ''navigation''
           \<or> se_role el = Some ''dialog'' \<or> se_ariaModal el = Some ''true''
           \<or> ''menu'' \<in> set (se_classes el) \<or> ''nav'' \<in> set (se_classes el)
           \<or> ''sidebar'' \<in> set (se_classes el) \<or> ''drawer'' \<in> set (se_classes el))
      \<and> ''backdrop'' \<notin> set (se_classes el)
      \<and> ''overlay'' \<notin> set (se_classes el)
      \<and> ''main'' \<notin> set (se_classes el))"

text \<open>\<open>colorToLightness\<close>; \<open>None\<close> is \<open>NaN\<close>.\<close>

definition colorToLightness :: "string \<Rightarrow> real option" where
  "colorToLightness color =
     (if color = [] then Some 0
      else (case (if startsWith color ''rgb'' then
                    (case digitRuns color of
                       d1 # d2 # d3 # others \<Rightarrow>
                         (Some (real (digitsVal d1)), Some (real (digitsVal d2)),
                          Some (real (digitsVal d3)))
                     | _ \<Rightarrow> (Some 0, Some 0, Some 0))
                  else if startsWith color ''#'' \<and> length (drop 1 color) = 6 then
                    (parseIntHex (take 2 (drop 1 color)), parseIntHex (take 2 (drop 3 color)),
                     parseIntHex (take 2 (drop 5 color)))
                  else (Some 0, Some 0, Some 0)) of
              (Some r, Some g, Some b) \<Rightarrow>
                Some (max 0 (min 1 ((0.2126 * r + 0.7152 * g + 0.0722 * b) / 255)))
            | _ \<Rightarrow> None))"

text \<open>
  The body of the \<open>forEach\<close> of \<open>analyzeDarkModeIssues\<close> for one element in a viewport of
  \<open>vw\<close> by \<open>vh\<close>: \<open>None\<close> when the element is skipped for its empty box, the problems found
  otherwise (an element enters the issue list when they are not empty).
\<close>

definition elementProblems :: "real \<Rightarrow> real \<Rightarrow> scannedElement \<Rightarrow> string list option" where
  "elementProblems vw vh el =
     (if se_rectWidth el = 0 \<or> se_rectHeight el = 0 then None
      else
        (let bgColor = backgroundColor (se_style el);
             txColor = textColor (se_style el)
         in Some
              ((if isLikelyMenu el vw vh \<and> isTransparent bgColor
                then [''transparent_menu_background''] else [])
             @ (if bgColor \<noteq> [] \<and> bgColor \<noteq> ''rgba(0, 0, 0, 0)'' \<and> txColor \<noteq> []
                   \<and> (case (colorToLightness bgColor, colorToLightness txColor) of
                         (Some bgLightness, Some textLightness) \<Rightarrow>
                           \<bar>bgLightness - textLightness\<bar> < 0.3
                       | _ \<Rightarrow> False)
                then [''poor_contrast''] else [])
             @ (if bgColor \<noteq> []
                   \<and> (str_includes bgColor ''255, 255, 255'' \<or> bgColor = ''white''
                        \<or> bgColor = ''#ffffff'')
                then [''white_background''] else [])
             @ (if visibility (se_style el) = ''hidden'' \<and> se_textContent el \<noteq> []
                   \<and> trim (se_textContent el) \<noteq> []
                then [''hidden_content''] else []))))"

section \<open>Style blocks and the mode marker\<close>

text \<open>
  The part of the document the two content scripts write: the classes of the root
  element and the \<open>style\<close> elements of the head, in document order. A style element has
  its \<open>id\<close> (empty when it has none), its text, and the attributes
  \<open>data-darkmode-patch\<close>, \<open>data-source\<close> and \<open>data-element-info\<close> when they are set;
  the last holds a JSON text, kept here as the value it encodes (\<open>None\<close> for \<open>{}\<close>).
\<close>

record elementInfo =
  ei_tag :: string
  ei_xpath :: string
  ei_description :: string

record styleBlock =
  sb_id :: string
  sb_textContent :: string
  sb_patch :: "nat option"
  sb_source :: "string option"
  sb_elementInfo :: "elementInfo option option"

record page =
  htmlClasses :: "string list"
  headStyles :: "styleBlock list"

record world =
  w_page :: page
  w_storage :: storage
  w_aiLearning :: bool

record injectMsg =
  im_css :: string
  im_source :: "string option"
  im_elementInfo :: "elementInfo option"
  im_elementData :: "elementData option"

datatype message =
    TOGGLE_DARK_MODE bool
  | InjectDarkmodeCss injectMsg
  | Unknown string

datatype response =
    Ok
  | Applied nat "elementInfo option"
  | Error string

definition classList_add :: "string \<Rightarrow> string list \<Rightarrow> string list" where
  "classList_add c cs = (if c \<in> set cs then cs else cs @ [c])"

definition classList_remove :: "string \<Rightarrow> string list \<Rightarrow> string list" where
  "classList_remove c cs = filter (\<lambda>x. x \<noteq> c) cs"

text \<open>
  The listener of content.js for the two messages that write the document; its other
  cases leave root classes and style elements alone. Tracking for the learning engine
  runs only when the engine was built and the message carries \<open>elementData\<close>.
\<close>

definition onMessage ::
    "(string \<Rightarrow> string option) \<Rightarrow> env \<Rightarrow> message \<Rightarrow> world \<Rightarrow> response \<times> world" where
  "onMessage urlHostname e msg w =
     (case msg of
        TOGGLE_DARK_MODE enabled \<Rightarrow>
          (Ok, w\<lparr>w_page := (w_page w)\<lparr>htmlClasses :=
                   (if enabled then classList_add ''universal-dark-mode'' (htmlClasses (w_page w))
                    else classList_remove ''universal-dark-mode'' (htmlClasses (w_page w)))\<rparr>\<rparr>)
      | InjectDarkmodeCss m \<Rightarrow>
          (let style = \<lparr>sb_id = [], sb_textContent = im_css m, sb_patch = Some (now e),
                        sb_source = Some (case im_source m of
                                            None \<Rightarrow> ''gemini''
                                          | Some src \<Rightarrow> if src = [] then ''gemini'' else src),
                        sb_elementInfo = Some (im_elementInfo m)\<rparr>;
               w1 = w\<lparr>w_page := (w_page w)\<lparr>headStyles := headStyles (w_page w) @ [style]\<rparr>\<rparr>;
               w2 = (case im_elementData m of
                       None \<Rightarrow> w1
                     | Some ed \<Rightarrow>
                         if w_aiLearning w
                         then w1\<lparr>w_storage := snd (trackFixSuccess urlHostname e ed (im_css m)
                                                      ''applied'' (w_storage w1))\<rparr>
                         else w1)
           in (Applied (now e) (im_elementInfo m), w2))
      | Unknown t \<Rightarrow> (Error ''unknown message type'', w))"

text \<open>\<open>document.querySelectorAll('style[data-darkmode-patch]')\<close>, within the head.\<close>

definition patchBlocks :: "page \<Rightarrow> styleBlock list" where
  "patchBlocks pg = filter (\<lambda>b. sb_patch b \<noteq> None) (headStyles pg)"

text \<open>The patch blocks that were applied for a node, told by its element information.\<close>

definition patchBlocksFor :: "elementInfo \<Rightarrow> page \<Rightarrow> styleBlock list" where
  "patchBlocksFor node pg = filter (\<lambda>b. sb_elementInfo b = Some (Some node)) (patchBlocks pg)"

text \<open>
  The menu-fixing content script answers the same message with
  \<open>injectGeminiCssPatch\<close>, and a disabling toggle with \<open>removeGeminiCssPatch\<close>.
\<close>

fun removeFirstWithId :: "string \<Rightarrow> styleBlock list \<Rightarrow> styleBlock list" where
  "removeFirstWithId i [] = []"
| "removeFirstWithId i (b # bs) = (if sb_id b = i then bs else b # removeFirstWithId i bs)"

definition injectGeminiCssPatch :: "string \<Rightarrow> page \<Rightarrow> page" where
  "injectGeminiCssPatch css pg =
     (if css = [] then pg
      else pg\<lparr>headStyles :=
                removeFirstWithId ''gemini-auto-dark-mode-styles'' (headStyles pg)
                @ [\<lparr>sb_id = ''gemini-auto-dark-mode-styles'', sb_textContent = css,
                    sb_patch = None, sb_source = None, sb_elementInfo = None\<rparr>]\<rparr>)"

definition removeGeminiCssPatch :: "page \<Rightarrow> page" where
  "removeGeminiCssPatch pg =
     pg\<lparr>headStyles := removeFirstWithId ''gemini-auto-dark-mode-styles'' (headStyles pg),
        htmlClasses := classList_remove ''universal-dark-mode'' (htmlClasses pg)\<rparr>"

text \<open>The style elements that \<open>injectGeminiCssPatch\<close> owns.\<close>

definition geminiBlocks :: "page \<Rightarrow> styleBlock list" where
  "geminiBlocks pg = filter (\<lambda>b. sb_id b = ''gemini-auto-dark-mode-styles'') (headStyles pg)"

section \<open>The pattern server (server/server.js)\<close>

text \<open>
  An entry of \<open>feedback_log.json\<close>. \<open>tag\<close>, \<open>classes\<close> and \<open>description\<close> come
  from the request body and may be missing; \<open>patch\<close> is always a string.
\<close>

record logEntry =
  le_timestamp :: nat
  le_tag :: "string option"
  le_classes :: "string list option"
  le_description :: "string option"
  le_patch :: string

record selectorBucket =
  sel_count :: nat
  sel_fixes :: "string list"

record domainIssue =
  di_tag :: "string option"
  di_classes :: "string list option"
  di_fix :: string

record typeBucket =
  tb_totalAttempts :: nat
  tb_successfulFixes :: nat
  tb_effectivenessRatio :: real

record historicalPatterns =
  commonSelectors :: "selectorBucket obj"
  successfulCSSRules :: "nat obj"
  domainSpecificPatterns :: "(domainIssue list) obj"
  temporalTrends :: "nat obj"
  elementTypeEffectiveness :: "typeBucket obj"

definition server_extractCSSRules :: "string \<Rightarrow> string list" where
  "server_extractCSSRules css =
     (if css = [] then []
      else map (\<lambda>rule. rule @ ''}'')
             (filter (\<lambda>rule. length rule > 5) (map trim (splitOn (CHR ''}'') css))))"

text \<open>
  One round of the \<open>forEach\<close> of \<open>analyzeHistoricalPatterns\<close>. \<open>isoMonth\<close> stands for
  \<open>new Date(t).toISOString().slice(0, 7)\<close>, which belongs to the platform.
\<close>

definition historyStep ::
    "(string \<Rightarrow> string option) \<Rightarrow> (nat \<Rightarrow> string) \<Rightarrow> historicalPatterns \<Rightarrow> logEntry
      \<Rightarrow> historicalPatterns" where
  "historyStep urlHostname isoMonth p entry =
     (let p1 = (case le_classes entry of
                  None \<Rightarrow> p
                | Some cs \<Rightarrow>
                    if length cs > 0 then
                      (let selectorKey = join ''.'' cs;
                           b = (case obj_get (commonSelectors p) selectorKey of
                                  None \<Rightarrow> \<lparr>sel_count = 0, sel_fixes = []\<rparr> | Some b \<Rightarrow> b)
                       in p\<lparr>commonSelectors := obj_set (commonSelectors p) selectorKey
                              \<lparr>sel_count = sel_count b + 1,
                               sel_fixes = (if le_patch entry \<noteq> []
                                            then sel_fixes b @ [le_patch entry]
                                            else sel_fixes b)\<rparr>\<rparr>)
                    else p);
          p2 = (if le_patch entry \<noteq> []
                then p1\<lparr>successfulCSSRules :=
                          foldl countInto (successfulCSSRules p1)
                            (server_extractCSSRules (le_patch entry))\<rparr>
                else p1);
          p3 = (case urlHostname (case le_description entry of None \<Rightarrow> [] | Some d \<Rightarrow> d) of
                  None \<Rightarrow> p2
                | Some domain \<Rightarrow>
                    p2\<lparr>domainSpecificPatterns :=
                          obj_set (domainSpecificPatterns p2) domain
                            ((case obj_get (domainSpecificPatterns p2) domain of
                                None \<Rightarrow> [] | Some issues \<Rightarrow> issues)
                             @ [\<lparr>di_tag = le_tag entry, di_classes = le_classes entry,
                                  di_fix = le_patch entry\<rparr>])\<rparr>);
          p4 = p3\<lparr>temporalTrends := countInto (temporalTrends p3) (isoMonth (le_timestamp entry))\<rparr>
      in if truthy (le_tag entry) then
           (let t = the (le_tag entry);
                b = (case obj_get (elementTypeEffectiveness p4) t of
                       None \<Rightarrow> \<lparr>tb_totalAttempts = 0, tb_successfulFixes = 0,
                                 tb_effectivenessRatio = 0\<rparr>
                     | Some b \<Rightarrow> b)
            in p4\<lparr>elementTypeEffectiveness := obj_set (elementTypeEffectiveness p4) t
                     (b\<lparr>tb_totalAttempts := tb_totalAttempts b + 1,
                        tb_successfulFixes :=
                          (if length (le_patch entry) > 10 then tb_successfulFixes b + 1
                           else tb_successfulFixes b)\<rparr>)\<rparr>)
         else p4)"

definition analyzeHistoricalPatterns ::
    "(string \<Rightarrow> string option) \<Rightarrow> (nat \<Rightarrow> string) \<Rightarrow> logEntry list \<Rightarrow> historicalPatterns" where
  "analyzeHistoricalPatterns urlHostname isoMonth feedbackData =
     (let p = foldl (historyStep urlHostname isoMonth)
                \<lparr>commonSelectors = [], successfulCSSRules = [], domainSpecificPatterns = [],
                 temporalTrends = [], elementTypeEffectiveness = []\<rparr> feedbackData
      in p\<lparr>elementTypeEffectiveness :=
             map (\<lambda>(t, d). (t, d\<lparr>tb_effectivenessRatio :=
                                    (if tb_totalAttempts d > 0
                                     then real (tb_successfulFixes d) / real (tb_totalAttempts d)
                                     else 0)\<rparr>))
               (elementTypeEffectiveness p)\<rparr>)"

definition findMostFrequentFix :: "string list \<Rightarrow> string option" where
  "findMostFrequentFix fixes =
     (if fixes = [] then None
      else (case sortByCountDesc (foldl countInto [] fixes) of
              [] \<Rightarrow> None
            | (fix, n) # rest \<Rightarrow> Some fix))"

record requestElement =
  re_tag :: "string option"
  re_classes :: "string list option"

definition ruleFor :: "string \<Rightarrow> string \<Rightarrow> string" where
  "ruleFor selector declarations = selector @ '' { '' @ declarations @ '' }''"

text \<open>
  \<open>generateBasicDarkModeCSS\<close>, the table of fixed rules by tag. It reads
  \<open>elementData.classes.length\<close> and \<open>elementData.tag.toLowerCase()\<close>, so a request without
  classes or without a tag makes it throw.
\<close>

definition generateBasicDarkModeCSS :: "requestElement \<Rightarrow> jsError + string list" where
  "generateBasicDarkModeCSS elementData =
     (case re_classes elementData of
        None \<Rightarrow> Inl TypeError
      | Some cs \<Rightarrow>
          (case re_tag elementData of
             None \<Rightarrow> Inl TypeError
           | Some t \<Rightarrow>
               (let selector = (if length cs > 0 then ''.'' @ join ''.'' cs else t);
                    lt = toLowerCase t
                in if lt = ''div'' \<or> lt = ''section'' then
                     (if list_ex (\<lambda>cls. str_includes cls ''menu'' \<or> str_includes cls ''dropdown'') cs
                      then Inr [ruleFor selector
                        ''background-color: #222 !important; color: #e0e0e0 !important; border: 1px solid #444 !important;'']
                      else Inr [])
                   else if lt = ''nav'' then
                     Inr [ruleFor selector
                        ''background-color: #1a1a1a !important; color: #ffffff !important;'']
                   else if lt = ''button'' then
                     Inr [ruleFor selector
                        ''background-color: #333 !important; color: #e0e0e0 !important; border: 1px solid #555 !important;'']
                   else if lt = ''input'' then
                     Inr [ruleFor selector
                        ''background-color: #2a2a2a !important; color: #e0e0e0 !important; border: 1px solid #555 !important;'']
                   else Inr [])))"

record smartCSS =
  sc_rules :: string
  sc_confidence :: real
  sc_reasoning :: "string list"

text \<open>\<open>Math.round\<close> on a number that is not negative.\<close>

definition mathRound :: "real \<Rightarrow> nat" where
  "mathRound x = nat \<lfloor>x + 1 / 2\<rfloor>"

text \<open>
  The three additive checks of \<open>generateSmartCSS\<close>, each giving the rules, the confidence
  and the reasoning it adds.
\<close>

definition classMatch :: "requestElement \<Rightarrow> historicalPatterns \<Rightarrow> string list \<times> real \<times> string list" where
  "classMatch elementData p =
     (case re_classes elementData of
        None \<Rightarrow> ([], 0, [])
      | Some cs \<Rightarrow>
          if length cs > 0 then
            (case obj_get (commonSelectors p) (join ''.'' cs) of
               None \<Rightarrow> ([], 0, [])
             | Some b \<Rightarrow>
                 if sel_count b \<ge> 3 then
                   (case findMostFrequentFix (sel_fixes b) of
                      None \<Rightarrow> ([], 0, [])
                    | Some mostCommonFix \<Rightarrow>
                        if mostCommonFix \<noteq> [] then
                          ([mostCommonFix], 0.8,
                           [''Based on '' @ showNat (length (sel_fixes b))
                              @ '' successful fixes for similar elements''])
                        else ([], 0, []))
                 else ([], 0, []))
          else ([], 0, []))"

definition typeMatch :: "requestElement \<Rightarrow> historicalPatterns \<Rightarrow> real \<times> string list" where
  "typeMatch elementData p =
     (if truthy (re_tag elementData) then
        (case obj_get (elementTypeEffectiveness p) (the (re_tag elementData)) of
           None \<Rightarrow> (0, [])
         | Some effectiveness \<Rightarrow>
             if tb_effectivenessRatio effectiveness > 0.7 then
               (0.3, [the (re_tag elementData) @ '' elements have ''
                        @ showNat (mathRound (tb_effectivenessRatio effectiveness * 100))
                        @ ''% fix success rate''])
             else (0, []))
      else (0, []))"

definition domainMatch :: "string option \<Rightarrow> historicalPatterns \<Rightarrow> real \<times> string list" where
  "domainMatch domain p =
     (if truthy domain then
        (case obj_get (domainSpecificPatterns p) (the domain) of
           None \<Rightarrow> (0, [])
         | Some issues \<Rightarrow>
             if length issues \<ge> 2 then
               (0.2, [''Found '' @ showNat (length issues) @ '' similar issues on this domain''])
             else (0, []))
      else (0, []))"

definition generateSmartCSS ::
    "requestElement \<Rightarrow> string option \<Rightarrow> historicalPatterns \<Rightarrow> jsError + smartCSS" where
  "generateSmartCSS elementData domain p =
     (case classMatch elementData p of
        (rules, c1, r1) \<Rightarrow>
          (case typeMatch elementData p of
             (c2, r2) \<Rightarrow>
               (case domainMatch domain p of
                  (c3, r3) \<Rightarrow>
                    (let conf = 0 + c1 + c2 + c3
                     in if rules = [] \<and> conf > 0.3 then
                          (case generateBasicDarkModeCSS elementData of
                             Inl err \<Rightarrow> Inl err
                           | Inr basic \<Rightarrow>
                               Inr \<lparr>sc_rules = join [CHR 0x0A] basic,
                                    sc_confidence = min conf 1.0,
                                    sc_reasoning = r1 @ r2 @ r3 @
                                      [''Generated basic dark mode CSS based on element type'']\<rparr>)
                        else Inr \<lparr>sc_rules = join [CHR 0x0A] rules,
                                  sc_confidence = min conf 1.0,
                                  sc_reasoning = r1 @ r2 @ r3\<rparr>))))"

datatype smartReply =
    PatternBased string real "string list"
  | FallbackToGemini
  | Failed500

text \<open>
  The handler of \<open>POST /api/smart-css-generation\<close>; the log is \<open>None\<close> when the file
  does not exist. An exception anywhere is answered with status 500.
\<close>

definition smartCssGeneration ::
    "(string \<Rightarrow> string option) \<Rightarrow> (nat \<Rightarrow> string) \<Rightarrow> logEntry list option
      \<Rightarrow> requestElement option \<Rightarrow> string option option \<Rightarrow> smartReply" where
  "smartCssGeneration urlHostname isoMonth logFile elementData pageContext =
     (let entries = (case logFile of None \<Rightarrow> [] | Some l \<Rightarrow> l);
          p = analyzeHistoricalPatterns urlHostname isoMonth entries
      in case elementData of
           None \<Rightarrow> Failed500
         | Some ed \<Rightarrow>
             (case pageContext of
                None \<Rightarrow> Failed500
              | Some domain \<Rightarrow>
                  (case generateSmartCSS ed domain p of
                     Inl err \<Rightarrow> Failed500
                   | Inr smart \<Rightarrow>
                       if sc_confidence smart > 0.6
                       then PatternBased (sc_rules smart) (sc_confidence smart) (sc_reasoning smart)
                       else FallbackToGemini)))"

section \<open>Notions of the specification\<close>

text \<open>
  The counts the specification speaks of, read off the feedback data: the entries of an
  element key that are marked fixed, and those that are not.
\<close>

definition successCount :: "feedback list \<Rightarrow> string \<Rightarrow> nat" where
  "successCount fb k =
     length (filter (\<lambda>f. fb_fixed f \<and> elementKey (fb_tag f) (fb_classes f) = k) fb)"

definition failureCount :: "feedback list \<Rightarrow> string \<Rightarrow> nat" where
  "failureCount fb k =
     length (filter (\<lambda>f. \<not> fb_fixed f \<and> elementKey (fb_tag f) (fb_classes f) = k) fb)"

text \<open>
  The confidence as the specification words it:
  \<open>successCount / (successCount + failureCount)\<close>, clamped to \<open>[0, 1]\<close>.
\<close>

definition spec_confidence :: "nat \<Rightarrow> nat \<Rightarrow> real" where
  "spec_confidence s f = max 0 (min 1 (real s / (real s + real f)))"

definition fixCountOf :: "fixBucket obj \<Rightarrow> string \<Rightarrow> nat" where
  "fixCountOf m k = (case obj_get m k of None \<Rightarrow> 0 | Some b \<Rightarrow> fx_count b)"

definition selCountOf :: "selectorBucket obj \<Rightarrow> string \<Rightarrow> nat" where
  "selCountOf m k = (case obj_get m k of None \<Rightarrow> 0 | Some b \<Rightarrow> sel_count b)"

text \<open>The entries of the feedback data that lie on a domain.\<close>

definition domainIssues :: "(string \<Rightarrow> string option) \<Rightarrow> feedback list \<Rightarrow> string \<Rightarrow> feedback list" where
  "domainIssues urlHostname fb d = filter (\<lambda>f. extractDomain urlHostname (fb_url f) = d) fb"

text \<open>The source a reply of \<open>generatePredictiveCSS\<close> names, when it holds a prediction.\<close>

definition sourceOf :: "jsError + prediction option \<Rightarrow> string option" where
  "sourceOf r = (case r of Inr (Some pr) \<Rightarrow> Some (pr_source pr) | _ \<Rightarrow> None)"


text \<open>
  The prior observations of a class key in the server's log: the entries whose classes
  join to the key.
\<close>

definition classKeyOf :: "logEntry \<Rightarrow> string option" where
  "classKeyOf entry =
     (case le_classes entry of
        None \<Rightarrow> None
      | Some cs \<Rightarrow> if length cs > 0 then Some (join ''.'' cs) else None)"

definition observations :: "logEntry list \<Rightarrow> string \<Rightarrow> nat" where
  "observations entries key = length (filter (\<lambda>entry. classKeyOf entry = Some key) entries)"

section \<open>Example data\<close>

text \<open>
  Feedback entries for one element key, \<open>DIV.menu\<close>, on one page: one that the user
  rated as fixed and one that the user rated as not fixed; and a URL parser that knows
  this page only.
\<close>

definition example_fixed :: feedback where
  "example_fixed =
     \<lparr>fb_tag = ''DIV'', fb_classes = [''menu''], fb_description = None,
      fb_url = ''https://a.test/'', fb_timestamp = 1, fb_fixed = True,
      fb_appliedCSS = Some ''.menu{color:#eee}'', fb_userRating = Some ''up'',
      fb_lastUpdated = Some 2\<rparr>"

definition example_unfixed :: feedback where
  "example_unfixed =
     \<lparr>fb_tag = ''DIV'', fb_classes = [''menu''], fb_description = None,
      fb_url = ''https://a.test/'', fb_timestamp = 3, fb_fixed = False,
      fb_appliedCSS = Some ''.menu{color:#eee}'', fb_userRating = Some ''down'',
      fb_lastUpdated = Some 4\<rparr>"


definition example_hostname :: "string \<Rightarrow> string option" where
  "example_hostname u = (if u = ''https://a.test/'' then Some ''a.test'' else None)"

definition example_env :: env where
  "example_env = \<lparr>now = 9, href = ''https://a.test/'', canWrite = (\<lambda>k. True)\<rparr>"

definition example_store :: "feedback list \<Rightarrow> storage" where
  "example_store fb =
     \<lparr>darkmode_feedback = fb, darkmode_patterns = None, darkmode_success = []\<rparr>"

definition example_menu :: elementData where
  "example_menu = \<lparr>ed_tag = ''DIV'', ed_classes = [''menu'']\<rparr>"

definition example_span :: elementData where
  "example_span = \<lparr>ed_tag = ''SPAN'', ed_classes = []\<rparr>"

text \<open>
  A log of three entries for the class \<open>menu\<close> of a \<open>NAV\<close> element on \<open>a.test\<close>, each with
  the same patch.
\<close>

definition example_entry :: logEntry where
  "example_entry =
     \<lparr>le_timestamp = 1, le_tag = Some ''NAV'', le_classes = Some [''menu''],
      le_description = Some ''https://a.test/'', le_patch = ''.menu { color: #eee }''\<rparr>"

definition example_history :: historicalPatterns where
  "example_history =
     analyzeHistoricalPatterns example_hostname (\<lambda>t. ''1970-01'')
       [example_entry, example_entry, example_entry]"

text \<open>
  Computed styles: white text on white, and a hidden element with black or with white
  text on a dark background. A scanned element of 200 by 300 pixels with a given text.
\<close>

definition example_style :: "string \<Rightarrow> string \<Rightarrow> string \<Rightarrow> computedStyle" where
  "example_style bg fg vis =
     \<lparr>backgroundColor = bg, textColor = fg, borderColor = ''rgb(0, 0, 0)'',
      borderStyle = ''none'', opacity = ''1'', visibility = vis, position = ''static'',
      zIndex = ''auto''\<rparr>"

definition example_scanned :: "string \<Rightarrow> computedStyle \<Rightarrow> scannedElement" where
  "example_scanned txt st =
     \<lparr>se_classes = [''note''], se_role = None, se_ariaModal = None, se_textContent = txt,
      se_hasOffsetParent = True, se_offsetWidth = 200, se_offsetHeight = 300,
      se_rectWidth = 200, se_rectHeight = 300, se_style = st\<rparr>"

text \<open>
  An element of a page with white text on white, with a given \<open>class\<close> attribute and no
  \<open>style\<close> attribute.
\<close>

definition example_element :: "string \<Rightarrow> pageElement" where
  "example_element cls =
     \<lparr>pg_tagName = ''DIV'', pg_id = [], pg_className = cls, pg_styleAttr = [],
      pg_style = example_style ''rgb(255, 255, 255)'' ''rgb(255, 255, 255)'' ''visible''\<rparr>"

text \<open>
  A page in dark mode with no style element yet, and a message that applies a patch for
  one node.
\<close>

definition example_node :: elementInfo where
  "example_node = \<lparr>ei_tag = ''DIV'', ei_xpath = ''/html/body/div[1]'', ei_description = ''menu''\<rparr>"

definition example_inject :: injectMsg where
  "example_inject =
     \<lparr>im_css = ''.menu{background:#222}'', im_source = None,
      im_elementInfo = Some example_node, im_elementData = Some example_menu\<rparr>"

definition example_world :: world where
  "example_world =
     \<lparr>w_page = \<lparr>htmlClasses = [''universal-dark-mode''], headStyles = []\<rparr>,
      w_storage = example_store [], w_aiLearning = True\<rparr>"

section \<open>Bounded logs\<close>

lemma length_slice_last: "length (slice_last n xs) = min n (length xs)"
  by (simp add: slice_last_def)

lemma trackFixSuccess_success_list:
  "darkmode_success (snd (trackFixSuccess h e d css r st)) =
     (if canWrite e ''darkmode_success''
      then slice_last 500 (darkmode_success st @ [\<lparr>sd_elementData = d, sd_appliedCSS = css,
             sd_userRating = r, sd_timestamp = now e,
             sd_domain = extractDomain h (href e),
             sd_effectivenessScore = calculateEffectivenessScore r\<rparr>])
      else darkmode_success st)"
  by (simp add: trackFixSuccess_def updateFeedbackWithSuccess_def Let_def slice_last_def
           split: option.splits)

lemma last_slice_last: "0 < n \<Longrightarrow> last (slice_last n (xs @ [x])) = x"
  by (simp add: slice_last_def)

lemma slice_last_at_cap:
  "length xs = n \<Longrightarrow> 0 < n \<Longrightarrow> slice_last n (xs @ [x]) = tl xs @ [x]"
  by (cases xs) (simp_all add: slice_last_def)

lemma popup_trackFixSuccess_list:
  "popup_trackFixSuccess e d css f stored = Inr l \<Longrightarrow>
     \<exists>r. l = slice_last 100 (stored @ [r])"
  by (auto simp add: popup_trackFixSuccess_def Let_def slice_last_def splice0_def
           split: if_splits)

text \<open>
  Claim C10. The engine's \<open>trackFixSuccess\<close> leaves at most 500 entries under
  \<open>darkmode_success\<close>: whenever the write goes through, whatever was stored before, and
  on the \<open>catch\<close> path too as long as the list was within the cap, which it is from an
  empty store on. The stored list is the last 500 entries of the old list followed by the
  new entry, so the new entry is kept, and at the cap exactly the oldest entry is dropped.
  The popup's \<open>trackFixSuccess\<close> does the same with 100 entries under
  \<open>darkmode_fix_tracking\<close>.
\<close>

theorem persisted_logs_bounded:
  "(length (darkmode_success st) \<le> 500 \<or> canWrite e ''darkmode_success'' \<longrightarrow>
      length (darkmode_success (snd (trackFixSuccess h e d css r st))) \<le> 500)
   \<and> (canWrite e ''darkmode_success'' \<longrightarrow>
        (\<exists>sd. fst (trackFixSuccess h e d css r st) = Some sd
            \<and> darkmode_success (snd (trackFixSuccess h e d css r st))
                = slice_last 500 (darkmode_success st @ [sd])
            \<and> last (darkmode_success (snd (trackFixSuccess h e d css r st))) = sd
            \<and> (length (darkmode_success st) = 500 \<longrightarrow>
                  darkmode_success (snd (trackFixSuccess h e d css r st))
                    = tl (darkmode_success st) @ [sd])))
   \<and> (popup_trackFixSuccess e pd patch f stored = Inr l \<longrightarrow>
        length l \<le> 100
        \<and> (\<exists>rec. l = slice_last 100 (stored @ [rec]) \<and> last l = rec
              \<and> (length stored = 100 \<longrightarrow> l = tl stored @ [rec])))"
proof (intro conjI impI)
  assume "length (darkmode_success st) \<le> 500 \<or> canWrite e ''darkmode_success''"
  then show "length (darkmode_success (snd (trackFixSuccess h e d css r st))) \<le> 500"
    by (auto simp add: trackFixSuccess_success_list length_slice_last)
next
  assume w: "canWrite e ''darkmode_success''"
  let ?sd = "\<lparr>sd_elementData = d, sd_appliedCSS = css,
             sd_userRating = r, sd_timestamp = now e,
             sd_domain = extractDomain h (href e),
             sd_effectivenessScore = calculateEffectivenessScore r\<rparr>"
  have 1: "fst (trackFixSuccess h e d css r st) = Some ?sd"
    using w by (simp add: trackFixSuccess_def Let_def)
  have 2: "darkmode_success (snd (trackFixSuccess h e d css r st))
                = slice_last 500 (darkmode_success st @ [?sd])"
    using w by (simp add: trackFixSuccess_success_list)
  show "\<exists>sd. fst (trackFixSuccess h e d css r st) = Some sd
            \<and> darkmode_success (snd (trackFixSuccess h e d css r st))
                = slice_last 500 (darkmode_success st @ [sd])
            \<and> last (darkmode_success (snd (trackFixSuccess h e d css r st))) = sd
            \<and> (length (darkmode_success st) = 500 \<longrightarrow>
                  darkmode_success (snd (trackFixSuccess h e d css r st))
                    = tl (darkmode_success st) @ [sd])"
    using 1 2 by (intro exI[of _ ?sd]) (simp add: last_slice_last slice_last_at_cap)
next
  assume p: "popup_trackFixSuccess e pd patch f stored = Inr l"
  from popup_trackFixSuccess_list[OF p]
  obtain rec where l: "l = slice_last 100 (stored @ [rec])" by blast
  show "length l \<le> 100" by (simp add: l length_slice_last)
  show "\<exists>rec. l = slice_last 100 (stored @ [rec]) \<and> last l = rec
              \<and> (length stored = 100 \<longrightarrow> l = tl stored @ [rec])"
    using l by (intro exI[of _ rec]) (simp add: last_slice_last slice_last_at_cap)
qed

theorem persisted_logs_bounded_witness:
  "length (darkmode_success (snd (trackFixSuccess (\<lambda>u. None)
      \<lparr>now = 7, href = ''https://a.test/'', canWrite = (\<lambda>k. True)\<rparr>
      \<lparr>ed_tag = ''DIV'', ed_classes = [''menu'']\<rparr> ''div.menu{color:#eee}'' ''up''
      \<lparr>darkmode_feedback = [], darkmode_patterns = None,
       darkmode_success = replicate 500 
        \<lparr>sd_elementData = \<lparr>ed_tag = ''A'', ed_classes = []\<rparr>, sd_appliedCSS = ''a{}'',
         sd_userRating = ''down'', sd_timestamp = 1, sd_domain = ''unknown'',
         sd_effectivenessScore = 0\<rparr>\<rparr>))) \<le> 500
   \<and> (\<exists>sd. darkmode_success (snd (trackFixSuccess (\<lambda>u. None)
      \<lparr>now = 7, href = ''https://a.test/'', canWrite = (\<lambda>k. True)\<rparr>
      \<lparr>ed_tag = ''DIV'', ed_classes = [''menu'']\<rparr> ''div.menu{color:#eee}'' ''up''
      \<lparr>darkmode_feedback = [], darkmode_patterns = None,
       darkmode_success = replicate 500 
        \<lparr>sd_elementData = \<lparr>ed_tag = ''A'', ed_classes = []\<rparr>, sd_appliedCSS = ''a{}'',
         sd_userRating = ''down'', sd_timestamp = 1, sd_domain = ''unknown'',
         sd_effectivenessScore = 0\<rparr>\<rparr>)) = replicate 499 
        \<lparr>sd_elementData = \<lparr>ed_tag = ''A'', ed_classes = []\<rparr>, sd_appliedCSS = ''a{}'',
         sd_userRating = ''down'', sd_timestamp = 1, sd_domain = ''unknown'',
         sd_effectivenessScore = 0\<rparr> @ [sd])
   \<and> (\<exists>l. popup_trackFixSuccess
        \<lparr>now = 7, href = ''https://a.test/'', canWrite = (\<lambda>k. True)\<rparr>
        \<lparr>pe_tag = ''DIV'', pe_elementType = ''navigation'', pe_detectedIssues = [],
         pe_url = ''https://a.test/'', pe_automated = True, pe_refinement = False\<rparr>
        ''div.menu{color:#eee}'' ''positive'' [] = Inr l \<and> length l \<le> 100)"
proof -
  let ?old = "\<lparr>sd_elementData = \<lparr>ed_tag = ''A'', ed_classes = []\<rparr>, sd_appliedCSS = ''a{}'',
         sd_userRating = ''down'', sd_timestamp = 1, sd_domain = ''unknown'',
         sd_effectivenessScore = 0\<rparr>"
  let ?e = "\<lparr>now = 7, href = ''https://a.test/'', canWrite = (\<lambda>k. True)\<rparr>"
  let ?st = "\<lparr>darkmode_feedback = [], darkmode_patterns = None,
       darkmode_success = replicate 500 ?old\<rparr>"
  let ?pd = "\<lparr>pe_tag = ''DIV'', pe_elementType = ''navigation'', pe_detectedIssues = [],
         pe_url = ''https://a.test/'', pe_automated = True, pe_refinement = False\<rparr>"
  obtain l where l: "popup_trackFixSuccess ?e ?pd ''div.menu{color:#eee}'' ''positive'' [] = Inr l"
    by (simp add: popup_trackFixSuccess_def Let_def)
  have t: "tl (replicate 500 ?old) = replicate 499 ?old"
    by simp
  show ?thesis
    using persisted_logs_bounded [where st = ?st and e = ?e and h = "\<lambda>u. None"
        and d = "\<lparr>ed_tag = ''DIV'', ed_classes = [''menu'']\<rparr>"
        and css = "''div.menu{color:#eee}''" and r = "''up''"
        and pd = ?pd and patch = "''div.menu{color:#eee}''" and f = "''positive''"
        and stored = "[]" and l = l] l t
    by auto
qed

section \<open>Pattern confidence\<close>

lemma obj_get_obj_set:
  "obj_get (obj_set m k v) k' = (if k' = k then Some v else obj_get m k')"
  by (induction m) (auto simp add: obj_get_def)

lemma obj_get_map_values:
  "obj_get (map (\<lambda>(k, v). (k, g v)) m) k = map_option g (obj_get m k)"
  by (induction m) (auto simp add: obj_get_def)

lemma successfulFixes_extractStep:
  "successfulFixes (extractStep h p f) =
     (if fb_fixed f
      then obj_set (successfulFixes p) (elementKey (fb_tag f) (fb_classes f))
             \<lparr>fx_count = fixCountOf (successfulFixes p) (elementKey (fb_tag f) (fb_classes f)) + 1,
              fx_cssFixes =
                (case obj_get (successfulFixes p) (elementKey (fb_tag f) (fb_classes f)) of
                   None \<Rightarrow> [] | Some b \<Rightarrow> fx_cssFixes b)
                @ (if truthy (fb_appliedCSS f) then [the (fb_appliedCSS f)] else [])\<rparr>
      else successfulFixes p)"
  by (simp add: extractStep_def Let_def fixCountOf_def truthy_def split: option.splits)

lemma fixCountOf_extractStep:
  "fixCountOf (successfulFixes (extractStep h p f)) k =
     fixCountOf (successfulFixes p) k
       + (if fb_fixed f \<and> elementKey (fb_tag f) (fb_classes f) = k then 1 else 0)"
  by (simp add: successfulFixes_extractStep) (simp add: fixCountOf_def obj_get_obj_set)

lemma fixCountOf_foldl:
  "fixCountOf (successfulFixes (foldl (extractStep h) p fb)) k =
     fixCountOf (successfulFixes p) k + successCount fb k"
  by (induction fb arbitrary: p) (simp_all add: successCount_def fixCountOf_extractStep)

lemma present_extractStep:
  "(obj_get (successfulFixes (extractStep h p f)) k = None) =
     (obj_get (successfulFixes p) k = None
       \<and> \<not> (fb_fixed f \<and> elementKey (fb_tag f) (fb_classes f) = k))"
  by (simp add: successfulFixes_extractStep obj_get_obj_set)

lemma present_foldl:
  "(obj_get (successfulFixes (foldl (extractStep h) p fb)) k = None) =
     (obj_get (successfulFixes p) k = None \<and> successCount fb k = 0)"
  by (induction fb arbitrary: p) (auto simp add: successCount_def present_extractStep)

lemma successfulFixes_extractPatterns:
  "obj_get (successfulFixes (extractPatterns h fb)) k = None \<longleftrightarrow> successCount fb k = 0"
  "fixCountOf (successfulFixes (extractPatterns h fb)) k = successCount fb k"
  using present_foldl [of h emptyPatterns fb k] fixCountOf_foldl [of h emptyPatterns fb k]
  by (simp_all add: extractPatterns_def Let_def emptyPatterns_def fixCountOf_def obj_get_def)

lemma confidence_extractPatterns:
  "obj_get (confidence (extractPatterns h fb)) k =
     (if successCount fb k = 0 then None
      else Some (min (real (successCount fb k) / 10) 1))"
proof -
  let ?p = "foldl (extractStep h) emptyPatterns fb"
  have c: "fixCountOf (successfulFixes ?p) k = successCount fb k"
    using fixCountOf_foldl [of h emptyPatterns fb k]
    by (simp add: emptyPatterns_def fixCountOf_def obj_get_def)
  have n: "(obj_get (successfulFixes ?p) k = None) = (successCount fb k = 0)"
    using present_foldl [of h emptyPatterns fb k]
    by (simp add: emptyPatterns_def obj_get_def)
  have "obj_get (confidence (extractPatterns h fb)) k =
          map_option (\<lambda>fix. min (real (fx_count fix) / 10) 1) (obj_get (successfulFixes ?p) k)"
    by (simp add: extractPatterns_def Let_def obj_get_map_values)
  then show ?thesis
    using c n by (cases "obj_get (successfulFixes ?p) k") (auto simp add: fixCountOf_def)
qed

lemma confidence_unfixed:
  "\<not> fb_fixed f \<Longrightarrow>
     confidence (extractPatterns h (fb @ [f])) = confidence (extractPatterns h fb)"
  by (simp add: extractPatterns_def Let_def successfulFixes_extractStep)

text \<open>
  Claim C3, as amended. The confidence of the Pattern Record of an element key is
  \<open>min (successCount / 10) 1\<close>, where \<open>successCount\<close> is the number of feedback entries
  of the key that are marked fixed, and a key with no such entry has no record. Entries
  that are not marked fixed do not enter the score: appending a negative entry after any
  number of positive ones leaves every confidence as it was.
\<close>

theorem confidence_counts_successes:
  "obj_get (confidence (extractPatterns h fb)) k =
     (if successCount fb k = 0 then None
      else Some (min (real (successCount fb k) / 10) 1))
   \<and> (\<not> fb_fixed f \<longrightarrow>
        confidence (extractPatterns h (fb @ [f])) = confidence (extractPatterns h fb))"
  by (simp add: confidence_extractPatterns confidence_unfixed)

theorem confidence_counts_successes_witness:
  "obj_get (confidence (extractPatterns example_hostname
      [example_fixed, example_fixed, example_fixed])) ''DIV.menu'' = Some (3 / 10)
   \<and> confidence (extractPatterns example_hostname
        ([example_fixed, example_fixed, example_fixed] @ [example_unfixed]))
      = confidence (extractPatterns example_hostname
          [example_fixed, example_fixed, example_fixed])"
proof -
  have n: "successCount [example_fixed, example_fixed, example_fixed] ''DIV.menu'' = 3"
    by (simp add: successCount_def example_fixed_def elementKey_def)
  have u: "\<not> fb_fixed example_unfixed"
    by (simp add: example_unfixed_def)
  show ?thesis
    using confidence_counts_successes [of example_hostname
        "[example_fixed, example_fixed, example_fixed]" "''DIV.menu''" example_unfixed] n u
    by simp
qed

text \<open>
  Claim C3 as stated fails: after three positive entries and one negative entry for
  \<open>DIV.menu\<close> the code's confidence is \<open>3/10\<close>, as it was before the negative entry,
  where \<open>successCount / (successCount + failureCount)\<close> is \<open>3/4\<close>.
\<close>

theorem confidence_formula_counterexample:
  "obj_get (confidence (extractPatterns example_hostname
      [example_fixed, example_fixed, example_fixed, example_unfixed])) ''DIV.menu''
     = Some (3 / 10)
   \<and> spec_confidence
        (successCount [example_fixed, example_fixed, example_fixed, example_unfixed] ''DIV.menu'')
        (failureCount [example_fixed, example_fixed, example_fixed, example_unfixed] ''DIV.menu'')
     = 3 / 4
   \<and> obj_get (confidence (extractPatterns example_hostname
        [example_fixed, example_fixed, example_fixed])) ''DIV.menu''
     = Some (3 / 10)"
  by (simp add: extractPatterns_def extractStep_def Let_def emptyPatterns_def obj_get_def
        example_fixed_def example_unfixed_def example_hostname_def elementKey_def
        categorizeProlem_def toLowerCase_def extractDomain_def
        successCount_def failureCount_def spec_confidence_def)

section \<open>Confidence values are probabilities\<close>





















section \<open>The order of the lookup\<close>

lemma websitePatterns_extractStep:
  "websitePatterns (extractStep h p f) =
     obj_set (websitePatterns p) (extractDomain h (fb_url f))
       ((case obj_get (websitePatterns p) (extractDomain h (fb_url f)) of
           None \<Rightarrow> \<lparr>st_issues = [], st_fixes = []\<rparr> | Some b \<Rightarrow> b)
        \<lparr>st_issues := st_issues
           (case obj_get (websitePatterns p) (extractDomain h (fb_url f)) of
              None \<Rightarrow> \<lparr>st_issues = [], st_fixes = []\<rparr> | Some b \<Rightarrow> b) @ [f]\<rparr>)"
  by (simp add: extractStep_def Let_def)

lemma websitePatterns_foldl:
  "obj_get (websitePatterns (foldl (extractStep h) p fb)) dm =
     (case obj_get (websitePatterns p) dm of
        None \<Rightarrow> if domainIssues h fb dm = [] then None
                else Some \<lparr>st_issues = domainIssues h fb dm, st_fixes = []\<rparr>
      | Some b \<Rightarrow> Some (b\<lparr>st_issues := st_issues b @ domainIssues h fb dm\<rparr>))"
proof (induction fb arbitrary: p)
  case Nil
  then show ?case by (simp add: domainIssues_def split: option.splits)
next
  case (Cons f fb)
  show ?case
    by (simp add: Cons.IH websitePatterns_extractStep obj_get_obj_set domainIssues_def
          split: option.splits)
qed

lemma websitePatterns_extractPatterns:
  "obj_get (websitePatterns (extractPatterns h fb)) dm =
     (if domainIssues h fb dm = [] then None
      else Some \<lparr>st_issues = domainIssues h fb dm, st_fixes = []\<rparr>)"
  using websitePatterns_foldl [of h emptyPatterns fb dm]
  by (simp add: extractPatterns_def Let_def emptyPatterns_def obj_get_def)

lemma threshold_iff: "(learningThreshold \<le> min (real n / 10) 1) = (7 \<le> n)"
  by (auto simp add: learningThreshold_def min_def)

lemma learned_gate:
  "(case obj_get (confidence (extractPatterns h fb)) k of
      None \<Rightarrow> False | Some c \<Rightarrow> learningThreshold \<le> c) = (7 \<le> successCount fb k)"
proof (cases "successCount fb k = 0")
  case True
  then show ?thesis by (simp add: confidence_extractPatterns)
next
  case False
  then have "obj_get (confidence (extractPatterns h fb)) k
               = Some (min (real (successCount fb k) / 10) 1)"
    by (simp add: confidence_extractPatterns)
  then show ?thesis by (simp only: option.case threshold_iff)
qed

lemma predictive_learned:
  assumes "canWrite e ''darkmode_patterns''"
    and "7 \<le> successCount (darkmode_feedback st) (elementKey (ed_tag d) (ed_classes d))"
  shows "sourceOf (fst (generatePredictiveCSS h e d url st)) = Some ''learned_pattern''"
proof -
  let ?fb = "darkmode_feedback st"
  let ?k = "elementKey (ed_tag d) (ed_classes d)"
  from assms(2) have n: "successCount ?fb ?k \<noteq> 0" by simp
  then obtain b where b: "obj_get (successfulFixes (extractPatterns h ?fb)) ?k = Some b"
    using successfulFixes_extractPatterns(1) [of h ?fb ?k] by auto
  show ?thesis
    using assms b
    by (simp add: generatePredictiveCSS_def analyzeFeedbackPatterns_def Let_def
          learned_gate sourceOf_def)
qed

lemma predictive_domain:
  assumes "sourceOf (fst (generatePredictiveCSS h e d url st)) = Some ''domain_pattern''"
  shows "successCount (darkmode_feedback st) (elementKey (ed_tag d) (ed_classes d)) < 7
    \<and> 3 \<le> length (domainIssues h (darkmode_feedback st) (extractDomain h url))
    \<and> length (domainIssues h (darkmode_feedback st) (extractDomain h url))
        < 2 * length (filter fb_fixed (domainIssues h (darkmode_feedback st) (extractDomain h url)))"
proof -
  let ?fb = "darkmode_feedback st"
  let ?k = "elementKey (ed_tag d) (ed_classes d)"
  let ?is = "domainIssues h ?fb (extractDomain h url)"
  from assms have w: "canWrite e ''darkmode_patterns''"
    by (auto simp add: generatePredictiveCSS_def analyzeFeedbackPatterns_def Let_def sourceOf_def
          split: if_splits)
  have g: "successCount ?fb ?k < 7"
  proof (rule ccontr)
    assume "\<not> successCount ?fb ?k < 7"
    then have "7 \<le> successCount ?fb ?k" by simp
    from predictive_learned [OF w this] assms show False by simp
  qed
  then have g': "\<not> 7 \<le> successCount ?fb ?k" by simp
  from assms w g' have d: "?is \<noteq> []"
    and c: "1 / 2 < dp_confidence (analyzeDomainPattern \<lparr>st_issues = ?is, st_fixes = []\<rparr>)"
    by (auto simp add: generatePredictiveCSS_def analyzeFeedbackPatterns_def Let_def sourceOf_def
          learned_gate websitePatterns_extractPatterns
          split: if_splits option.splits)
  from c have l: "3 \<le> length ?is"
    by (auto simp add: analyzeDomainPattern_def Let_def split: if_splits)
  then have pos: "0 < real (length ?is)" by linarith
  from c l have "1 / 2 < real (length (filter fb_fixed ?is)) / real (length ?is)"
    by (auto simp add: analyzeDomainPattern_def Let_def split: if_splits)
  then have "1 / 2 * real (length ?is) < real (length (filter fb_fixed ?is))"
    using pos by (simp only: pos_less_divide_eq)
  then have "real (length ?is) < 2 * real (length (filter fb_fixed ?is))"
    by simp
  then have "length ?is < 2 * length (filter fb_fixed ?is)"
    by linarith
  with g l show ?thesis by simp
qed


text \<open>
  Claim C7, as amended. The lookup of \<open>generatePredictiveCSS\<close> consults the global
  pattern of the element key first and answers with it whenever the key has at least 7
  fixed entries (confidence at least 0.7), whatever the domain bucket holds. The domain
  bucket is consulted only when that fails, and it is trusted only when it holds at least
  3 issues of the same domain of which more than half are marked fixed.
\<close>

theorem global_pattern_before_domain:
  "(canWrite e ''darkmode_patterns''
      \<and> 7 \<le> successCount (darkmode_feedback st) (elementKey (ed_tag d) (ed_classes d)) \<longrightarrow>
      sourceOf (fst (generatePredictiveCSS h e d url st)) = Some ''learned_pattern'')
   \<and> (sourceOf (fst (generatePredictiveCSS h e d url st)) = Some ''domain_pattern'' \<longrightarrow>
        successCount (darkmode_feedback st) (elementKey (ed_tag d) (ed_classes d)) < 7
        \<and> 3 \<le> length (domainIssues h (darkmode_feedback st) (extractDomain h url))
        \<and> length (domainIssues h (darkmode_feedback st) (extractDomain h url))
            < 2 * length (filter fb_fixed
                    (domainIssues h (darkmode_feedback st) (extractDomain h url))))"
  using predictive_learned [of e st d h url] predictive_domain [of h e d url st]
  by blast

lemma example_domain_reply:
  "sourceOf (fst (generatePredictiveCSS example_hostname example_env example_span
      ''https://a.test/'' (example_store (replicate 7 example_fixed))))
     = Some ''domain_pattern''"
  by (simp add: generatePredictiveCSS_def analyzeFeedbackPatterns_def Let_def
        extractPatterns_def extractStep_def emptyPatterns_def obj_get_def
        example_fixed_def example_hostname_def example_env_def example_store_def
        example_span_def elementKey_def numeral_eq_Suc
        categorizeProlem_def toLowerCase_def extractDomain_def sourceOf_def
        learningThreshold_def analyzeDomainPattern_def)

theorem global_pattern_before_domain_witness:
  "sourceOf (fst (generatePredictiveCSS example_hostname example_env example_menu
      ''https://a.test/'' (example_store (replicate 7 example_fixed))))
     = Some ''learned_pattern''
   \<and> 3 \<le> length (domainIssues example_hostname
          (darkmode_feedback (example_store (replicate 7 example_fixed)))
          (extractDomain example_hostname ''https://a.test/''))
   \<and> successCount (darkmode_feedback (example_store (replicate 7 example_fixed)))
        (elementKey (ed_tag example_span) (ed_classes example_span)) < 7"
proof -
  let ?st = "example_store (replicate 7 example_fixed)"
  have w: "canWrite example_env ''darkmode_patterns''"
    by (simp add: example_env_def)
  have n: "7 \<le> successCount (darkmode_feedback ?st)
                 (elementKey (ed_tag example_menu) (ed_classes example_menu))"
    by (simp add: successCount_def example_store_def example_fixed_def example_menu_def
          elementKey_def)
  show ?thesis
    using global_pattern_before_domain [of example_env ?st example_menu example_hostname
        "''https://a.test/''"]
      global_pattern_before_domain [of example_env ?st example_span example_hostname
        "''https://a.test/''"]
      w n example_domain_reply
    by simp
qed

text \<open>
  Claim C7 as stated fails. With seven fixed entries for \<open>DIV.menu\<close> on \<open>a.test\<close> the
  domain bucket is trusted (an element without a pattern of its own gets the domain's
  reply), yet a request for \<open>DIV.menu\<close> on that domain is answered from the global
  pattern: the global bucket is consulted first, and the domain bucket is not trusted
  over it.
\<close>

theorem domain_first_counterexample:
  "sourceOf (fst (generatePredictiveCSS example_hostname example_env example_menu
      ''https://a.test/'' (example_store (replicate 7 example_fixed))))
     = Some ''learned_pattern''
   \<and> sourceOf (fst (generatePredictiveCSS example_hostname example_env example_span
        ''https://a.test/'' (example_store (replicate 7 example_fixed))))
     = Some ''domain_pattern''"
  by (simp add: generatePredictiveCSS_def analyzeFeedbackPatterns_def Let_def
        extractPatterns_def extractStep_def emptyPatterns_def obj_get_def
        example_fixed_def example_hostname_def example_env_def example_store_def
        example_span_def example_menu_def elementKey_def numeral_eq_Suc
        categorizeProlem_def toLowerCase_def extractDomain_def sourceOf_def
        learningThreshold_def analyzeDomainPattern_def)

text \<open>
  The smallest domain bucket that is trusted has three issues: one of two issues, both
  fixed, gives the reply \<open>null\<close>.
\<close>

lemma domain_bucket_of_two_not_trusted:
  "length (domainIssues example_hostname [example_fixed, example_fixed] ''a.test'') = 2
   \<and> fst (generatePredictiveCSS example_hostname example_env example_menu
        ''https://a.test/'' (example_store [example_fixed, example_fixed])) = Inr None"
  by (simp add: generatePredictiveCSS_def analyzeFeedbackPatterns_def Let_def
        extractPatterns_def extractStep_def emptyPatterns_def obj_get_def
        example_fixed_def example_hostname_def example_env_def example_store_def
        example_menu_def elementKey_def
        categorizeProlem_def toLowerCase_def extractDomain_def
        learningThreshold_def analyzeDomainPattern_def domainIssues_def)

section \<open>The thresholds of the pattern server\<close>

lemma commonSelectors_historyStep:
  "commonSelectors (historyStep h m p entry) =
     (case classKeyOf entry of
        None \<Rightarrow> commonSelectors p
      | Some key \<Rightarrow>
          obj_set (commonSelectors p) key
            \<lparr>sel_count = selCountOf (commonSelectors p) key + 1,
             sel_fixes = (case obj_get (commonSelectors p) key of
                            None \<Rightarrow> [] | Some b \<Rightarrow> sel_fixes b)
                         @ (if le_patch entry \<noteq> [] then [le_patch entry] else [])\<rparr>)"
  by (simp add: historyStep_def classKeyOf_def selCountOf_def Let_def split: option.splits)

lemma selCountOf_historyStep:
  "selCountOf (commonSelectors (historyStep h m p entry)) k =
     selCountOf (commonSelectors p) k + (if classKeyOf entry = Some k then 1 else 0)"
  by (simp add: commonSelectors_historyStep selCountOf_def obj_get_obj_set split: option.splits)

lemma selCountOf_foldl:
  "selCountOf (commonSelectors (foldl (historyStep h m) p lg)) k =
     selCountOf (commonSelectors p) k + observations lg k"
  by (induction lg arbitrary: p) (simp_all add: observations_def selCountOf_historyStep)

lemma sel_count_observations:
  "obj_get (commonSelectors (analyzeHistoricalPatterns h m lg)) k = Some b \<Longrightarrow>
     sel_count b = observations lg k"
  using selCountOf_foldl [of h m
      "\<lparr>commonSelectors = [], successfulCSSRules = [], domainSpecificPatterns = [],
        temporalTrends = [], elementTypeEffectiveness = []\<rparr>" lg k]
  by (simp add: analyzeHistoricalPatterns_def Let_def selCountOf_def obj_get_def)

lemma classMatch_cases:
  "classMatch ed p = (rs, c, why) \<Longrightarrow>
     (rs = [] \<and> c = 0 \<and> why = [])
     \<or> (\<exists>cs b fix. re_classes ed = Some cs \<and> cs \<noteq> []
           \<and> obj_get (commonSelectors p) (join ''.'' cs) = Some b \<and> 3 \<le> sel_count b
           \<and> findMostFrequentFix (sel_fixes b) = Some fix \<and> fix \<noteq> []
           \<and> rs = [fix] \<and> c = 8 / 10)"
  by (auto simp add: classMatch_def split: option.splits if_splits)

lemma typeMatch_cases: "typeMatch ed p = (c, why) \<Longrightarrow> c = 0 \<or> c = 3 / 10"
  by (auto simp add: typeMatch_def split: option.splits if_splits)

lemma domainMatch_cases: "domainMatch dm p = (c, why) \<Longrightarrow> c = 0 \<or> c = 2 / 10"
  by (auto simp add: domainMatch_def split: option.splits if_splits)

lemma generateSmartCSS_learned:
  assumes "generateSmartCSS ed dm p = Inr s" and "fst (classMatch ed p) \<noteq> []"
  shows "8 / 10 \<le> sc_confidence s
     \<and> (\<exists>cs b. re_classes ed = Some cs \<and> cs \<noteq> []
           \<and> obj_get (commonSelectors p) (join ''.'' cs) = Some b \<and> 3 \<le> sel_count b
           \<and> findMostFrequentFix (sel_fixes b) = Some (sc_rules s))"
proof -
  obtain rs c1 r1 where a: "classMatch ed p = (rs, c1, r1)" by (cases "classMatch ed p") auto
  obtain c2 r2 where b: "typeMatch ed p = (c2, r2)" by (cases "typeMatch ed p") auto
  obtain c3 r3 where c: "domainMatch dm p = (c3, r3)" by (cases "domainMatch dm p") auto
  from assms(2) a have "rs \<noteq> []" by simp
  with classMatch_cases [OF a] obtain cs bk fx where
    k: "re_classes ed = Some cs" "cs \<noteq> []"
       "obj_get (commonSelectors p) (join ''.'' cs) = Some bk" "3 \<le> sel_count bk"
       "findMostFrequentFix (sel_fixes bk) = Some fx" "rs = [fx]" "c1 = 8 / 10"
    by auto
  have nn: "0 \<le> c2" "0 \<le> c3"
    using typeMatch_cases [OF b] domainMatch_cases [OF c] by auto
  from assms(1) a b c k have "sc_rules s = fx" and "sc_confidence s = min (8 / 10 + c2 + c3) 1"
    by (auto simp add: generateSmartCSS_def Let_def)
  with k nn show ?thesis by auto
qed

lemma generateSmartCSS_template:
  assumes "generateSmartCSS ed dm p = Inr s" and "fst (classMatch ed p) = []"
  shows "sc_confidence s \<le> 5 / 10
     \<and> (sc_rules s \<noteq> [] \<longrightarrow>
          3 / 10 < sc_confidence s
          \<and> (\<exists>basic. generateBasicDarkModeCSS ed = Inr basic
                \<and> sc_rules s = join [CHR 0x0A] basic))
     \<and> (sc_confidence s \<le> 3 / 10 \<longrightarrow> sc_rules s = [])"
proof -
  obtain rs c1 r1 where a: "classMatch ed p = (rs, c1, r1)" by (cases "classMatch ed p") auto
  obtain c2 r2 where b: "typeMatch ed p = (c2, r2)" by (cases "typeMatch ed p") auto
  obtain c3 r3 where c: "domainMatch dm p = (c3, r3)" by (cases "domainMatch dm p") auto
  from assms(2) a have rs: "rs = []" by simp
  with classMatch_cases [OF a] have c1: "c1 = 0" by auto
  have cc: "c2 = 0 \<or> c2 = 3 / 10" "c3 = 0 \<or> c3 = 2 / 10"
    using typeMatch_cases [OF b] domainMatch_cases [OF c] by auto
  show ?thesis
  proof (cases "3 / 10 < c2 + c3")
    case True
    with assms(1) a b c rs c1 cc show ?thesis
      by (auto simp add: generateSmartCSS_def Let_def split: sum.splits)
  next
    case False
    with assms(1) a b c rs c1 cc show ?thesis
      by (auto simp add: generateSmartCSS_def Let_def split: sum.splits)
  qed
qed


lemma example_history_tables:
  "commonSelectors example_history
     = [(''menu'', \<lparr>sel_count = 3, sel_fixes = [''.menu { color: #eee }'',
          ''.menu { color: #eee }'', ''.menu { color: #eee }'']\<rparr>)]"
  "elementTypeEffectiveness example_history
     = [(''NAV'', \<lparr>tb_totalAttempts = 3, tb_successfulFixes = 3, tb_effectivenessRatio = 1\<rparr>)]"
  "domainSpecificPatterns example_history
     = [(''a.test'', replicate 3 \<lparr>di_tag = Some ''NAV'', di_classes = Some [''menu''],
                                  di_fix = ''.menu { color: #eee }''\<rparr>)]"
  by (simp_all add: example_history_def analyzeHistoricalPatterns_def historyStep_def Let_def
        example_entry_def example_hostname_def obj_get_def truthy_def countInto_def
        server_extractCSSRules_def trim_def isSpace_def numeral_eq_Suc)

lemma smartCssGeneration_reply:
  assumes "smartCssGeneration h m logFile (Some ed) (Some dm) = PatternBased css conf why"
  shows "\<exists>s. generateSmartCSS ed dm
               (analyzeHistoricalPatterns h m (case logFile of None \<Rightarrow> [] | Some l \<Rightarrow> l)) = Inr s
           \<and> 6 / 10 < sc_confidence s \<and> css = sc_rules s \<and> conf = sc_confidence s"
  using assms
  by (auto simp add: smartCssGeneration_def Let_def split: sum.splits if_splits)

text \<open>
  Claim C6. A reply of the endpoint that carries CSS carries the stored pattern of the
  request's class key: its confidence is at least 0.6 and the log holds at least 3 prior
  observations of the key. In \<open>generateSmartCSS\<close> the stored pattern is used only with
  at least 3 observations and then the confidence is at least 0.6; without a stored
  pattern, rules come from the fixed table only, and only when the confidence from the
  element type and the domain is at least 0.3; at 0.3 and below there are no rules.
\<close>

theorem smart_css_threshold_gated:
  "(smartCssGeneration h m logFile (Some ed) (Some dm) = PatternBased css conf why \<longrightarrow>
      6 / 10 \<le> conf
      \<and> (\<exists>cs b. re_classes ed = Some cs
            \<and> 3 \<le> observations (case logFile of None \<Rightarrow> [] | Some l \<Rightarrow> l) (join ''.'' cs)
            \<and> obj_get (commonSelectors (analyzeHistoricalPatterns h m
                  (case logFile of None \<Rightarrow> [] | Some l \<Rightarrow> l))) (join ''.'' cs) = Some b
            \<and> findMostFrequentFix (sel_fixes b) = Some css))
   \<and> (generateSmartCSS ed dm p = Inr s \<and> fst (classMatch ed p) \<noteq> [] \<longrightarrow>
        6 / 10 \<le> sc_confidence s
        \<and> (\<exists>cs b. re_classes ed = Some cs
              \<and> obj_get (commonSelectors p) (join ''.'' cs) = Some b \<and> 3 \<le> sel_count b
              \<and> findMostFrequentFix (sel_fixes b) = Some (sc_rules s)))
   \<and> (generateSmartCSS ed dm p = Inr s \<and> fst (classMatch ed p) = [] \<and> sc_rules s \<noteq> [] \<longrightarrow>
        3 / 10 \<le> sc_confidence s
        \<and> (\<exists>basic. generateBasicDarkModeCSS ed = Inr basic
              \<and> sc_rules s = join [CHR 0x0A] basic))
   \<and> (generateSmartCSS ed dm p = Inr s \<and> fst (classMatch ed p) = []
        \<and> sc_confidence s \<le> 3 / 10 \<longrightarrow> sc_rules s = [])"
proof (intro conjI impI)
  assume a: "smartCssGeneration h m logFile (Some ed) (Some dm) = PatternBased css conf why"
  let ?entries = "case logFile of None \<Rightarrow> [] | Some l \<Rightarrow> l"
  let ?p = "analyzeHistoricalPatterns h m ?entries"
  from smartCssGeneration_reply [OF a] obtain s where
    s: "generateSmartCSS ed dm ?p = Inr s" "6 / 10 < sc_confidence s"
       "css = sc_rules s" "conf = sc_confidence s"
    by blast
  then show "6 / 10 \<le> conf" by simp
  have "fst (classMatch ed ?p) \<noteq> []"
  proof
    assume "fst (classMatch ed ?p) = []"
    from generateSmartCSS_template [OF s(1) this] s(2) show False by simp
  qed
  from generateSmartCSS_learned [OF s(1) this] obtain cs b where
    b: "re_classes ed = Some cs" "obj_get (commonSelectors ?p) (join ''.'' cs) = Some b"
       "3 \<le> sel_count b" "findMostFrequentFix (sel_fixes b) = Some (sc_rules s)"
    by blast
  from sel_count_observations [OF b(2)] b(3)
  have "3 \<le> observations ?entries (join ''.'' cs)" by simp
  with b s(3)
  show "\<exists>cs b. re_classes ed = Some cs
            \<and> 3 \<le> observations ?entries (join ''.'' cs)
            \<and> obj_get (commonSelectors ?p) (join ''.'' cs) = Some b
            \<and> findMostFrequentFix (sel_fixes b) = Some css"
    by blast
next
  assume a: "generateSmartCSS ed dm p = Inr s \<and> fst (classMatch ed p) \<noteq> []"
  then have l: "8 / 10 \<le> sc_confidence s
     \<and> (\<exists>cs b. re_classes ed = Some cs \<and> cs \<noteq> []
           \<and> obj_get (commonSelectors p) (join ''.'' cs) = Some b \<and> 3 \<le> sel_count b
           \<and> findMostFrequentFix (sel_fixes b) = Some (sc_rules s))"
    using generateSmartCSS_learned [of ed dm p s] by blast
  then show "6 / 10 \<le> sc_confidence s" by simp
  from l show "\<exists>cs b. re_classes ed = Some cs
              \<and> obj_get (commonSelectors p) (join ''.'' cs) = Some b \<and> 3 \<le> sel_count b
              \<and> findMostFrequentFix (sel_fixes b) = Some (sc_rules s)"
    by blast
next
  assume a: "generateSmartCSS ed dm p = Inr s \<and> fst (classMatch ed p) = [] \<and> sc_rules s \<noteq> []"
  then have t: "3 / 10 < sc_confidence s
          \<and> (\<exists>basic. generateBasicDarkModeCSS ed = Inr basic
                \<and> sc_rules s = join [CHR 0x0A] basic)"
    using generateSmartCSS_template [of ed dm p s] by blast
  then show "3 / 10 \<le> sc_confidence s" by simp
  from t show "\<exists>basic. generateBasicDarkModeCSS ed = Inr basic
              \<and> sc_rules s = join [CHR 0x0A] basic"
    by blast
next
  assume a: "generateSmartCSS ed dm p = Inr s \<and> fst (classMatch ed p) = []
        \<and> sc_confidence s \<le> 3 / 10"
  then show "sc_rules s = []"
    using generateSmartCSS_template [of ed dm p s] by simp
qed

text \<open>
  The endpoint itself never sends rules of the fixed table: without a stored pattern the
  confidence is at most 0.5, which is not above 0.6.
\<close>

lemma template_rules_never_sent:
  assumes "fst (classMatch ed (analyzeHistoricalPatterns h m
                  (case logFile of None \<Rightarrow> [] | Some l \<Rightarrow> l))) = []"
  shows "smartCssGeneration h m logFile (Some ed) (Some dm) = FallbackToGemini
       \<or> smartCssGeneration h m logFile (Some ed) (Some dm) = Failed500"
proof (cases "smartCssGeneration h m logFile (Some ed) (Some dm)")
  case (PatternBased css conf why)
  from smartCssGeneration_reply [OF this] obtain s where
    s: "generateSmartCSS ed dm (analyzeHistoricalPatterns h m
          (case logFile of None \<Rightarrow> [] | Some l \<Rightarrow> l)) = Inr s" "6 / 10 < sc_confidence s"
    by blast
  from generateSmartCSS_template [OF s(1) assms] s(2) show ?thesis by simp
qed simp_all

lemma example_matches:
  "classMatch \<lparr>re_tag = Some ''NAV'', re_classes = Some [''menu'']\<rparr> example_history
     = ([''.menu { color: #eee }''], 8 / 10,
        [''Based on '' @ showNat (Suc (Suc (Suc 0))) @ '' successful fixes for similar elements''])"
  "classMatch \<lparr>re_tag = Some t, re_classes = Some []\<rparr> example_history = ([], 0, [])"
  "typeMatch \<lparr>re_tag = Some ''NAV'', re_classes = cs\<rparr> example_history
     = (3 / 10, [''NAV elements have '' @ showNat (mathRound 100) @ ''% fix success rate''])"
  "typeMatch \<lparr>re_tag = Some ''P'', re_classes = cs\<rparr> example_history = (0, [])"
  "domainMatch (Some ''a.test'') example_history
     = (2 / 10, [''Found '' @ showNat 3 @ '' similar issues on this domain''])"
  "domainMatch None example_history = (0, [])"
  by (simp_all add: classMatch_def typeMatch_def domainMatch_def example_history_tables
        findMostFrequentFix_def countInto_def obj_get_def sortByCountDesc_def truthy_def)

lemma example_basic:
  "generateBasicDarkModeCSS \<lparr>re_tag = Some ''NAV'', re_classes = Some []\<rparr>
     = Inr [''NAV { background-color: #1a1a1a !important; color: #ffffff !important; }'']"
  by (simp add: generateBasicDarkModeCSS_def toLowerCase_def lowerChar_def ruleFor_def)

lemma example_smart:
  "\<exists>why. generateSmartCSS \<lparr>re_tag = Some ''NAV'', re_classes = Some [''menu'']\<rparr>
      (Some ''a.test'') example_history
     = Inr \<lparr>sc_rules = ''.menu { color: #eee }'', sc_confidence = 1, sc_reasoning = why\<rparr>"
  "\<exists>why. generateSmartCSS \<lparr>re_tag = Some ''NAV'', re_classes = Some []\<rparr>
      (Some ''a.test'') example_history
     = Inr \<lparr>sc_rules = ''NAV { background-color: #1a1a1a !important; color: #ffffff !important; }'',
            sc_confidence = 5 / 10, sc_reasoning = why\<rparr>"
  "generateSmartCSS \<lparr>re_tag = Some ''P'', re_classes = Some []\<rparr> None example_history
     = Inr \<lparr>sc_rules = [], sc_confidence = 0, sc_reasoning = []\<rparr>"
  by (simp_all add: generateSmartCSS_def Let_def example_matches example_basic)

lemma example_reply:
  "\<exists>why. smartCssGeneration example_hostname (\<lambda>t. ''1970-01'')
      (Some [example_entry, example_entry, example_entry])
      (Some \<lparr>re_tag = Some ''NAV'', re_classes = Some [''menu'']\<rparr>) (Some (Some ''a.test''))
     = PatternBased ''.menu { color: #eee }'' 1 why"
  by (simp add: smartCssGeneration_def generateSmartCSS_def Let_def
        example_history_def [symmetric] example_matches)


theorem smart_css_threshold_gated_witness:
  "(\<exists>why. smartCssGeneration example_hostname (\<lambda>t. ''1970-01'')
        (Some [example_entry, example_entry, example_entry])
        (Some \<lparr>re_tag = Some ''NAV'', re_classes = Some [''menu'']\<rparr>) (Some (Some ''a.test''))
      = PatternBased ''.menu { color: #eee }'' 1 why)
   \<and> 3 \<le> observations [example_entry, example_entry, example_entry] ''menu''
   \<and> (\<exists>s. generateSmartCSS \<lparr>re_tag = Some ''NAV'', re_classes = Some [''menu'']\<rparr>
              (Some ''a.test'') example_history = Inr s
         \<and> 6 / 10 \<le> sc_confidence s)
   \<and> (\<exists>s. generateSmartCSS \<lparr>re_tag = Some ''NAV'', re_classes = Some []\<rparr>
              (Some ''a.test'') example_history = Inr s
         \<and> sc_rules s \<noteq> [] \<and> 3 / 10 \<le> sc_confidence s)
   \<and> (\<exists>s. generateSmartCSS \<lparr>re_tag = Some ''P'', re_classes = Some []\<rparr> None
              example_history = Inr s
         \<and> sc_confidence s < 3 / 10 \<and> sc_rules s = [])"
proof -
  let ?lg = "[example_entry, example_entry, example_entry]"
  let ?menu = "\<lparr>re_tag = Some ''NAV'', re_classes = Some [''menu'']\<rparr>"
  let ?nav = "\<lparr>re_tag = Some ''NAV'', re_classes = Some []\<rparr>"
  let ?par = "\<lparr>re_tag = Some ''P'', re_classes = Some []\<rparr>"
  from example_reply obtain why where
    r: "smartCssGeneration example_hostname (\<lambda>t. ''1970-01'') (Some ?lg) (Some ?menu)
          (Some (Some ''a.test'')) = PatternBased ''.menu { color: #eee }'' 1 why"
    by blast
  from example_smart(1) obtain w1 where
    s1: "generateSmartCSS ?menu (Some ''a.test'') example_history
           = Inr \<lparr>sc_rules = ''.menu { color: #eee }'', sc_confidence = 1, sc_reasoning = w1\<rparr>"
    by blast
  from example_smart(2) obtain w2 where
    s2: "generateSmartCSS ?nav (Some ''a.test'') example_history
           = Inr \<lparr>sc_rules = ''NAV { background-color: #1a1a1a !important; color: #ffffff !important; }'',
                  sc_confidence = 5 / 10, sc_reasoning = w2\<rparr>"
    by blast
  note s3 = example_smart(3)
  have m: "fst (classMatch ?menu example_history) \<noteq> []"
    "fst (classMatch ?nav example_history) = []"
    "fst (classMatch ?par example_history) = []"
    by (simp_all add: example_matches)
  have "3 \<le> observations ?lg ''menu''"
    using smart_css_threshold_gated [where h = example_hostname and m = "\<lambda>t. ''1970-01''"
        and logFile = "Some ?lg" and ed = ?menu and dm = "Some ''a.test''"
        and css = "''.menu { color: #eee }''" and conf = 1 and why = why] r
    by auto
  moreover have "6 / 10 \<le> sc_confidence
      \<lparr>sc_rules = ''.menu { color: #eee }'', sc_confidence = 1, sc_reasoning = w1\<rparr>"
    using smart_css_threshold_gated [where ed = ?menu and dm = "Some ''a.test''"
        and p = example_history
        and s = "\<lparr>sc_rules = ''.menu { color: #eee }'', sc_confidence = 1, sc_reasoning = w1\<rparr>"]
      s1 m(1)
    by blast
  moreover have "3 / 10 \<le> sc_confidence
      \<lparr>sc_rules = ''NAV { background-color: #1a1a1a !important; color: #ffffff !important; }'',
       sc_confidence = 5 / 10, sc_reasoning = w2\<rparr>"
    using smart_css_threshold_gated [where ed = ?nav and dm = "Some ''a.test''"
        and p = example_history
        and s = "\<lparr>sc_rules = ''NAV { background-color: #1a1a1a !important; color: #ffffff !important; }'',
                  sc_confidence = 5 / 10, sc_reasoning = w2\<rparr>"]
      s2 m(2)
    by simp
  moreover have "sc_rules \<lparr>sc_rules = [], sc_confidence = 0, sc_reasoning = []\<rparr> = []"
    using smart_css_threshold_gated [where ed = ?par and dm = None and p = example_history
        and s = "\<lparr>sc_rules = [], sc_confidence = 0, sc_reasoning = []\<rparr>"]
      s3 m(3)
    by simp
  ultimately show ?thesis
    using r s1 s2 s3 by auto
qed

section \<open>Parsing a colour\<close>

lemma startsWith_set: "startsWith s p \<Longrightarrow> set p \<subseteq> set s"
  by (induction s p rule: startsWith.induct) auto

lemma matchRgbaAt_needs_paren: "CHR ''('' \<notin> set s \<Longrightarrow> matchRgbaAt s = None"
  using startsWith_set [of s "''rgb(''"] startsWith_set [of s "''rgba(''"]
  by (auto simp add: matchRgbaAt_def)

lemma rgbaMatch_needs_paren: "CHR ''('' \<notin> set s \<Longrightarrow> rgbaMatch s = None"
  by (induction s) (simp_all add: matchRgbaAt_needs_paren)

lemma hexMatch_needs_hash: "\<not> startsWith s ''#'' \<Longrightarrow> hexMatch s = None"
  by (cases s) (auto simp add: hexMatch_def)

lemma parseColor_default:
  "s \<noteq> [] \<Longrightarrow> s \<noteq> ''transparent'' \<Longrightarrow> rgbaMatch s = None \<Longrightarrow> hexMatch s = None \<Longrightarrow>
     parseColor (Some s) = \<lparr>c_r = 0, c_g = 0, c_b = 0, c_alpha = Num 1\<rparr>"
  by (simp add: parseColor_def)

lemma parseColor_NaN:
  assumes "c_alpha (parseColor x) = NaN"
  shows "\<exists>s d1 d2 d3 a. x = Some s \<and> rgbaMatch s = Some (d1, d2, d3, Some a) \<and> parseFloat a = NaN"
  using assms
  by (auto simp add: parseColor_def split: option.splits if_splits)

lemma parse_white: "parseColor (Some ''white'') = \<lparr>c_r = 0, c_g = 0, c_b = 0, c_alpha = Num 1\<rparr>"
  by (simp add: parseColor_def matchRgbaAt_def hexMatch_def)

lemma parse_rgb: "parseColor (Some ''rgb(255, 255, 255)'') = \<lparr>c_r = 255, c_g = 255, c_b = 255, c_alpha = Num 1\<rparr>"
  by (simp add: parseColor_def matchRgbaAt_def afterDigits_def isDigit_def isSpace_def digitsVal_def)

lemma parse_rgba: "parseColor (Some ''rgba(0, 0, 0, 0)'') = \<lparr>c_r = 0, c_g = 0, c_b = 0, c_alpha = Num 0\<rparr>"
  by (simp add: parseColor_def matchRgbaAt_def afterDigits_def isDigit_def isSpace_def digitsVal_def
      isAlphaChar_def parseFloat_def takeSign_def takeExponent_def)

lemma parse_rgba_half: "parseColor (Some ''rgba(10, 20, 30, 0.5)'') = \<lparr>c_r = 10, c_g = 20, c_b = 30, c_alpha = Num 0.5\<rparr>"
  by (simp add: parseColor_def matchRgbaAt_def afterDigits_def isDigit_def isSpace_def digitsVal_def
      isAlphaChar_def parseFloat_def takeSign_def takeExponent_def)

lemma parse_rgba_dot: "parseColor (Some ''rgba(1, 2, 3, .)'') = \<lparr>c_r = 1, c_g = 2, c_b = 3, c_alpha = NaN\<rparr>"
  by (simp add: parseColor_def matchRgbaAt_def afterDigits_def isDigit_def isSpace_def digitsVal_def
      isAlphaChar_def parseFloat_def takeSign_def takeExponent_def)

lemma parse_hex3: "parseColor (Some ''#1aF'') = \<lparr>c_r = 17, c_g = 170, c_b = 255, c_alpha = Num 1\<rparr>"
  by (simp add: parseColor_def matchRgbaAt_def hexMatch_def isHexDigit_def isDigit_def hexVal_def hexDigitVal_def)

lemma parse_hex6: "parseColor (Some ''#ff8000'') = \<lparr>c_r = 255, c_g = 128, c_b = 0, c_alpha = Num 1\<rparr>"
  by (simp add: parseColor_def matchRgbaAt_def hexMatch_def isHexDigit_def isDigit_def hexVal_def hexDigitVal_def)

text \<open>
  Claim C9. \<open>parseColor\<close> is a total function into records of three channel numbers and
  an alpha. The null value, the empty string and \<open>transparent\<close> give transparent black.
  A string that matches neither the \<open>rgb()/rgba()\<close> pattern nor the hexadecimal pattern
  gives opaque black; so does every string without an opening parenthesis that does not
  start with \<open>#\<close>, hence every named colour. The alpha is a number in all these cases; it is
  the number value \<open>NaN\<close> only after an \<open>rgba()\<close> match whose alpha text has no decimal
  prefix.
\<close>

theorem parseColor_defaults:
  "parseColor None = \<lparr>c_r = 0, c_g = 0, c_b = 0, c_alpha = Num 0\<rparr>
   \<and> parseColor (Some []) = \<lparr>c_r = 0, c_g = 0, c_b = 0, c_alpha = Num 0\<rparr>
   \<and> parseColor (Some ''transparent'') = \<lparr>c_r = 0, c_g = 0, c_b = 0, c_alpha = Num 0\<rparr>
   \<and> (s \<noteq> [] \<and> s \<noteq> ''transparent'' \<and> rgbaMatch s = None \<and> hexMatch s = None \<longrightarrow>
        parseColor (Some s) = \<lparr>c_r = 0, c_g = 0, c_b = 0, c_alpha = Num 1\<rparr>)
   \<and> (s \<noteq> [] \<and> s \<noteq> ''transparent'' \<and> CHR ''('' \<notin> set s \<and> \<not> startsWith s ''#'' \<longrightarrow>
        parseColor (Some s) = \<lparr>c_r = 0, c_g = 0, c_b = 0, c_alpha = Num 1\<rparr>)
   \<and> (c_alpha (parseColor x) = NaN \<longrightarrow>
        (\<exists>t d1 d2 d3 a. x = Some t \<and> rgbaMatch t = Some (d1, d2, d3, Some a)
            \<and> parseFloat a = NaN))"
proof (intro conjI impI)
  show "parseColor None = \<lparr>c_r = 0, c_g = 0, c_b = 0, c_alpha = Num 0\<rparr>"
    and "parseColor (Some []) = \<lparr>c_r = 0, c_g = 0, c_b = 0, c_alpha = Num 0\<rparr>"
    and "parseColor (Some ''transparent'') = \<lparr>c_r = 0, c_g = 0, c_b = 0, c_alpha = Num 0\<rparr>"
    by (simp_all add: parseColor_def)
next
  assume "s \<noteq> [] \<and> s \<noteq> ''transparent'' \<and> rgbaMatch s = None \<and> hexMatch s = None"
  then show "parseColor (Some s) = \<lparr>c_r = 0, c_g = 0, c_b = 0, c_alpha = Num 1\<rparr>"
    by (simp add: parseColor_default)
next
  assume a: "s \<noteq> [] \<and> s \<noteq> ''transparent'' \<and> CHR ''('' \<notin> set s \<and> \<not> startsWith s ''#''"
  then have "rgbaMatch s = None" and "hexMatch s = None"
    by (simp_all add: rgbaMatch_needs_paren hexMatch_needs_hash)
  with a show "parseColor (Some s) = \<lparr>c_r = 0, c_g = 0, c_b = 0, c_alpha = Num 1\<rparr>"
    by (simp add: parseColor_default)
next
  assume "c_alpha (parseColor x) = NaN"
  from parseColor_NaN [OF this]
  show "\<exists>t d1 d2 d3 a. x = Some t \<and> rgbaMatch t = Some (d1, d2, d3, Some a)
            \<and> parseFloat a = NaN" .
qed

theorem parseColor_defaults_witness:
  "parseColor (Some ''white'') = \<lparr>c_r = 0, c_g = 0, c_b = 0, c_alpha = Num 1\<rparr>
   \<and> rgbaMatch ''rgb(1, 2'' = None \<and> hexMatch ''rgb(1, 2'' = None
   \<and> parseColor (Some ''rgb(1, 2'') = \<lparr>c_r = 0, c_g = 0, c_b = 0, c_alpha = Num 1\<rparr>
   \<and> c_alpha (parseColor (Some ''rgba(1, 2, 3, .)'')) = NaN
   \<and> rgbaMatch ''rgba(1, 2, 3, .)'' = Some (''1'', ''2'', ''3'', Some ''.'')"
proof -
  have w: "''white'' \<noteq> [] \<and> ''white'' \<noteq> ''transparent'' \<and> CHR ''('' \<notin> set ''white''
             \<and> \<not> startsWith ''white'' ''#''"
    by simp
  have m: "rgbaMatch ''rgb(1, 2'' = None" "hexMatch ''rgb(1, 2'' = None"
    by (simp_all add: matchRgbaAt_def afterDigits_def isDigit_def isSpace_def hexMatch_def)
  have n: "c_alpha (parseColor (Some ''rgba(1, 2, 3, .)'')) = NaN"
    by (simp add: parse_rgba_dot)
  have r: "rgbaMatch ''rgba(1, 2, 3, .)'' = Some (''1'', ''2'', ''3'', Some ''.'')"
    by (simp add: matchRgbaAt_def afterDigits_def isDigit_def isSpace_def isAlphaChar_def)
  show ?thesis
    using parseColor_defaults [of "''white''" None]
      parseColor_defaults [of "''rgb(1, 2''" "Some ''rgba(1, 2, 3, .)''"] w m n r
    by simp
qed

section \<open>Contrast\<close>

lemma linearize_nonneg: "0 \<le> v \<Longrightarrow> 0 \<le> linearize v"
  by (simp add: linearize_def)

lemma getLuminance_nonneg: "0 \<le> getLuminance c"
  by (simp add: getLuminance_def linearize_nonneg)

lemma contrast_same: "calculateContrast c c = 1"
  using getLuminance_nonneg [of c] by (simp add: calculateContrast_def Let_def)



lemma linearize_one: "linearize 1 = 1"
  by (simp add: linearize_def)


lemma luminance_white: "getColorLuminance ''rgb(255, 255, 255)'' = Some 1"
  by (simp add: getColorLuminance_def digitRuns_def isDigit_def digitsVal_def linearize_one)


lemma poor_contrast_white: "haspoorContrast ''rgb(255, 255, 255)'' ''rgb(255, 255, 255)''"
  by (simp add: haspoorContrast_def luminance_white)







lemma detect_white:
  "detectDarkModeIssues (example_style ''rgb(255, 255, 255)'' ''rgb(255, 255, 255)'' ''visible'')
     = [''very_light_background'', ''low_contrast'']"
  by (simp add: detectDarkModeIssues_def example_style_def parse_rgb contrast_same
        isLightColor_def isDarkColor_def parseColor_def [of "Some ''rgb(0, 0, 0)''"]
        matchRgbaAt_def afterDigits_def isDigit_def isSpace_def digitsVal_def)










text \<open>
  An element that no selector matches is not examined: a page of such elements has no
  issues.
\<close>

lemma foldl_examineSelector_unmatched:
  "\<forall>sel \<in> set sels. querySelectorAll document sel = []
   \<Longrightarrow> foldl (examineSelector document) a sels = a"
  by (induction sels arbitrary: a) (simp_all add: examineSelector_def Let_def)

lemma analyzePageForDarkMode_unmatched:
  "\<forall>sel \<in> set problematicSelectors. querySelectorAll document sel = []
   \<Longrightarrow> darkModeIssues (analyzePageForDarkMode e document) = []"
  by (simp add: analyzePageForDarkMode_def Let_def foldl_examineSelector_unmatched)



lemma example_page_issues:
  "map pi_issue (darkModeIssues (analyzePageForDarkMode example_env
      [example_element ''card'', example_element ''menu'']))
     = [''poor_contrast'', ''poor_contrast'']
   \<and> totalElements (analyzePageForDarkMode example_env
        [example_element ''card'', example_element ''menu'']) = 2
   \<and> darkModeIssues (analyzePageForDarkMode example_env [example_element ''card'']) = []"
  by (simp add: analyzePageForDarkMode_def examineSelector_def examineElement_def
        querySelectorAll_def problematicSelectors_def classList_def isAsciiSpace_def
        example_element_def example_style_def example_env_def issueOf_def
        poor_contrast_white Let_def)



section \<open>Hidden content\<close>

lemma detect_hidden:
  "detectDarkModeIssues (example_style ''rgb(34, 34, 34)'' ''rgb(0, 0, 0)'' ''hidden'') = []"
  by (simp add: detectDarkModeIssues_def example_style_def
        isLightColor_def isDarkColor_def parseColor_def js_less_def
        matchRgbaAt_def afterDigits_def isDigit_def isSpace_def digitsVal_def)

lemma scan_blank:
  "elementProblems 1920 1080
     (example_scanned '' '' (example_style ''rgb(34, 34, 34)'' ''rgb(255, 255, 255)'' ''hidden''))
     = Some []"
  by (simp add: elementProblems_def example_scanned_def example_style_def isLikelyMenu_def
        isTransparent_def colorToLightness_def digitRuns_def isDigit_def digitsVal_def
        trim_def isSpace_def)

lemma scan_text:
  "elementProblems 1920 1080
     (example_scanned ''Menu'' (example_style ''rgb(34, 34, 34)'' ''rgb(255, 255, 255)'' ''hidden''))
     = Some [''hidden_content'']"
  by (simp add: elementProblems_def example_scanned_def example_style_def isLikelyMenu_def
        isTransparent_def colorToLightness_def digitRuns_def isDigit_def digitsVal_def
        trim_def isSpace_def)

lemma hidden_content_emitted:
  assumes "se_rectWidth el \<noteq> 0" and "se_rectHeight el \<noteq> 0"
    and "visibility (se_style el) = ''hidden''" and "trim (se_textContent el) \<noteq> []"
  shows "\<exists>ps. elementProblems vw vh el = Some ps \<and> ''hidden_content'' \<in> set ps"
proof -
  from assms(4) have "se_textContent el \<noteq> []" by (auto simp add: trim_def)
  with assms show ?thesis by (simp add: elementProblems_def Let_def)
qed

lemma scanner_taxonomy:
  "elementProblems vw vh el = Some ps \<Longrightarrow>
     set ps \<subseteq> {''transparent_menu_background'', ''poor_contrast'', ''white_background'',
                ''hidden_content''}"
  by (auto simp add: elementProblems_def Let_def split: if_splits)

lemma detect_taxonomy:
  "set (detectDarkModeIssues cs) \<subseteq>
     {''light_background_dark_text'', ''transparent_background_dark_text'',
      ''very_light_background'', ''low_contrast'', ''low_opacity'', ''light_border''}"
  by (auto simp add: detectDarkModeIssues_def Let_def split: if_splits)

lemma detect_never_hidden: "''hidden_content'' \<notin> set (detectDarkModeIssues cs)"
  using detect_taxonomy [of cs] by auto

text \<open>
  Claim C5, as amended. The page scanner \<open>analyzeDarkModeIssues\<close> gives the tag
  \<open>hidden_content\<close> to every element with a box that is not empty, visibility \<open>hidden\<close>
  and a text content that is not empty once white space is trimmed; its tags are the four
  \<open>transparent_menu_background\<close>, \<open>poor_contrast\<close>, \<open>white_background\<close> and
  \<open>hidden_content\<close>. The classifier of a selected element, \<open>detectDarkModeIssues\<close>, has six
  tags of its own and never gives \<open>hidden_content\<close>.
\<close>

theorem hidden_content_from_scanner:
  "(se_rectWidth el \<noteq> 0 \<and> se_rectHeight el \<noteq> 0 \<and> visibility (se_style el) = ''hidden''
      \<and> trim (se_textContent el) \<noteq> [] \<longrightarrow>
      (\<exists>ps. elementProblems vw vh el = Some ps \<and> ''hidden_content'' \<in> set ps))
   \<and> (elementProblems vw vh el = Some ps \<longrightarrow>
        set ps \<subseteq> {''transparent_menu_background'', ''poor_contrast'', ''white_background'',
                   ''hidden_content''})
   \<and> set (detectDarkModeIssues cs) \<subseteq>
        {''light_background_dark_text'', ''transparent_background_dark_text'',
         ''very_light_background'', ''low_contrast'', ''low_opacity'', ''light_border''}
   \<and> ''hidden_content'' \<notin> set (detectDarkModeIssues cs)"
  using hidden_content_emitted [of el vw vh] scanner_taxonomy [of vw vh el ps]
    detect_taxonomy [of cs] detect_never_hidden [of cs]
  by blast

theorem hidden_content_from_scanner_witness:
  "elementProblems 1920 1080
     (example_scanned ''Menu'' (example_style ''rgb(34, 34, 34)'' ''rgb(255, 255, 255)'' ''hidden''))
     = Some [''hidden_content'']
   \<and> (\<exists>ps. elementProblems 1920 1080
          (example_scanned ''Menu''
             (example_style ''rgb(34, 34, 34)'' ''rgb(255, 255, 255)'' ''hidden'')) = Some ps
        \<and> ''hidden_content'' \<in> set ps
        \<and> set ps \<subseteq> {''transparent_menu_background'', ''poor_contrast'', ''white_background'',
                    ''hidden_content''})"
proof -
  let ?el = "example_scanned ''Menu''
               (example_style ''rgb(34, 34, 34)'' ''rgb(255, 255, 255)'' ''hidden'')"
  have h: "se_rectWidth ?el \<noteq> 0 \<and> se_rectHeight ?el \<noteq> 0
             \<and> visibility (se_style ?el) = ''hidden'' \<and> trim (se_textContent ?el) \<noteq> []"
    by (simp add: example_scanned_def example_style_def trim_def isSpace_def)
  show ?thesis
    using hidden_content_from_scanner [of ?el 1920 1080 "[''hidden_content'']"] h scan_text
    by auto
qed

text \<open>
  Claim C5 as stated fails. \<open>detectDarkModeIssues\<close> gives no tag at all for a hidden
  element (black text on a dark background); and the scanner gives no tag for a hidden
  element whose text content is the single space, which is not empty.
\<close>

theorem hidden_content_counterexample:
  "visibility (example_style ''rgb(34, 34, 34)'' ''rgb(0, 0, 0)'' ''hidden'') = ''hidden''
   \<and> detectDarkModeIssues (example_style ''rgb(34, 34, 34)'' ''rgb(0, 0, 0)'' ''hidden'') = []
   \<and> se_textContent (example_scanned '' ''
        (example_style ''rgb(34, 34, 34)'' ''rgb(255, 255, 255)'' ''hidden'')) \<noteq> []
   \<and> elementProblems 1920 1080
        (example_scanned '' '' (example_style ''rgb(34, 34, 34)'' ''rgb(255, 255, 255)'' ''hidden''))
      = Some []"
  by (simp add: detect_hidden scan_blank) (simp add: example_style_def example_scanned_def)

section \<open>Applying and removing patches\<close>

lemma inject_appends:
  "headStyles (w_page (snd (onMessage h e (InjectDarkmodeCss m) w)))
     = headStyles (w_page w)
       @ [\<lparr>sb_id = [], sb_textContent = im_css m, sb_patch = Some (now e),
           sb_source = Some (case im_source m of
                               None \<Rightarrow> ''gemini''
                             | Some src \<Rightarrow> if src = [] then ''gemini'' else src),
           sb_elementInfo = Some (im_elementInfo m)\<rparr>]"
  by (simp add: onMessage_def Let_def split: option.splits)

lemma toggle_keeps_styles:
  "headStyles (w_page (snd (onMessage h e (TOGGLE_DARK_MODE b) w))) = headStyles (w_page w)"
  by (simp add: onMessage_def)

lemma toggle_off_removes_marker:
  "''universal-dark-mode'' \<notin> set (htmlClasses (w_page (snd (onMessage h e (TOGGLE_DARK_MODE False) w))))"
  by (simp add: onMessage_def classList_remove_def)

lemma removeFirstWithId_filter:
  "length (filter (\<lambda>b. sb_id b = i) bs) \<le> 1 \<Longrightarrow>
     filter (\<lambda>b. sb_id b = i) (removeFirstWithId i bs) = []"
  by (induction bs) (auto split: if_splits)

lemma gemini_patch_replaced:
  "css \<noteq> [] \<Longrightarrow> length (geminiBlocks pg) \<le> 1 \<Longrightarrow>
     length (geminiBlocks (injectGeminiCssPatch css pg)) = 1"
  by (simp add: geminiBlocks_def injectGeminiCssPatch_def removeFirstWithId_filter)

lemma gemini_patch_removed:
  "length (geminiBlocks pg) \<le> 1 \<Longrightarrow> geminiBlocks (removeGeminiCssPatch pg) = []"
  by (simp add: geminiBlocks_def removeGeminiCssPatch_def removeFirstWithId_filter)

text \<open>
  Claim C1 fails on content.js. Its handler of \<open>inject-darkmode-css\<close> appends a new style
  element on every message and looks at none that is there: the same patch applied to the
  same node twice leaves two blocks for the node. The handler of the same message in the
  menu-fixing content script, \<open>injectGeminiCssPatch\<close>, removes its earlier block first
  (lemma \<open>gemini_patch_replaced\<close>).
\<close>

theorem same_patch_twice_stacks:
  "length (patchBlocksFor example_node
     (w_page (snd (onMessage example_hostname example_env (InjectDarkmodeCss example_inject)
        (snd (onMessage example_hostname example_env (InjectDarkmodeCss example_inject)
           example_world)))))) = 2"
  by (simp add: inject_appends patchBlocksFor_def patchBlocks_def example_world_def
        example_inject_def)

text \<open>
  Claim C2 fails on content.js. Its handler of \<open>TOGGLE_DARK_MODE\<close> with
  \<open>enabled = false\<close> removes the class \<open>universal-dark-mode\<close> from the root element and
  nothing else: a patch block applied before is still in the document. The handler of
  the menu-fixing content script also calls \<open>removeGeminiCssPatch\<close>, which removes its
  block (lemma \<open>gemini_patch_removed\<close>).
\<close>

theorem disable_leaves_patch_blocks:
  "length (patchBlocks
     (w_page (snd (onMessage example_hostname example_env (TOGGLE_DARK_MODE False)
        (snd (onMessage example_hostname example_env (InjectDarkmodeCss example_inject)
           example_world)))))) = 1
   \<and> ''universal-dark-mode'' \<notin> set (htmlClasses
     (w_page (snd (onMessage example_hostname example_env (TOGGLE_DARK_MODE False)
        (snd (onMessage example_hostname example_env (InjectDarkmodeCss example_inject)
           example_world))))))"
  by (simp add: toggle_keeps_styles toggle_off_removes_marker inject_appends patchBlocks_def
        example_world_def)

end
